theory Spec2Isabelle
  imports Complex_Main "HOL-Library.Sublist" "HOL-Library.AList"
begin

text \<open>
  A shallow embedding of the CloudFormation stack parameters action: the stack name
  generator (\<^verbatim>\<open>stack-name-generator.js\<close>), the parameter merger
  (\<^verbatim>\<open>parameter-merger.js\<close>, in its version with the tag functions), the readers of the
  default parameter and tag files (\<^verbatim>\<open>configuration-reader.js\<close>) and the CI build id
  generator (\<^verbatim>\<open>ci-build-id-generator.js\<close>). Every function returns a sum: \<open>Inl\<close> is
  the error it throws, \<open>Inr\<close> the value it returns. The external world (the branch
  lookup, the file system, \<^verbatim>\<open>Math.random\<close>) is an argument of the function that
  consults it.
\<close>

section \<open>JavaScript values, errors and the runtime\<close>

text \<open>
  The action is JavaScript. A string is a \<^typ>\<open>string\<close> (one \<^typ>\<open>char\<close> per code unit;
  the character classes the code tests are all ASCII). A number is a real number or one
  of the three non-finite values; every test the code makes on a number (truthiness,
  \<^verbatim>\<open>Number.isInteger\<close>, comparison with 6 and 10) is exact on doubles, so a statement
  for all reals covers all doubles. An object is the list of its own enumerable
  properties in property order.
\<close>

datatype jsnum = Finite real | NaN | PosInfinity | NegInfinity

datatype jsval =
    JUndefined
  | JNull
  | JBool bool
  | JNum jsnum
  | JStr string
  | JArray "jsval list"
  | JObject "(string \<times> jsval) list"

text \<open>
  An exception is a value. \<^verbatim>\<open>new Error(msg)\<close> has a message only; the errors of
  \<^verbatim>\<open>fs\<close> and \<^verbatim>\<open>child_process\<close> also carry \<^verbatim>\<open>code\<close>, \<^verbatim>\<open>signal\<close>,
  \<^verbatim>\<open>killed\<close> and \<^verbatim>\<open>status\<close>, which the catch blocks inspect.
\<close>

record js_error =
  code :: "string option"
  signal :: "string option"
  killed :: bool
  status :: "int option"
  message :: string

definition Error :: "string \<Rightarrow> js_error" where
  "Error msg = \<lparr>code = None, signal = None, killed = False, status = None, message = msg\<rparr>"

text \<open>
  The built-ins of the runtime that the code calls and that are not part of the
  repository are parameters of the model: the conversion of a number to a string, JSON
  serialisation and parsing (\<open>Inl\<close> is the message of the \<^verbatim>\<open>SyntaxError\<close>) and
  \<^verbatim>\<open>path.join\<close>.
\<close>

record js_runtime =
  Number_toString :: "jsnum \<Rightarrow> string"
  JSON_stringify :: "jsval \<Rightarrow> string"
  JSON_parse :: "string \<Rightarrow> string + jsval"
  path_join :: "string list \<Rightarrow> string"

fun typeof :: "jsval \<Rightarrow> string" where
  "typeof JUndefined = ''undefined''"
| "typeof JNull = ''object''"
| "typeof (JBool b) = ''boolean''"
| "typeof (JNum n) = ''number''"
| "typeof (JStr s) = ''string''"
| "typeof (JArray xs) = ''object''"
| "typeof (JObject ps) = ''object''"

text \<open>\<^verbatim>\<open>!x\<close> is \<open>\<not> truthy x\<close>.\<close>

fun truthy :: "jsval \<Rightarrow> bool" where
  "truthy JUndefined = False"
| "truthy JNull = False"
| "truthy (JBool b) = b"
| "truthy (JNum (Finite r)) = (r \<noteq> 0)"
| "truthy (JNum NaN) = False"
| "truthy (JNum PosInfinity) = True"
| "truthy (JNum NegInfinity) = True"
| "truthy (JStr s) = (s \<noteq> [])"
| "truthy (JArray xs) = True"
| "truthy (JObject ps) = True"

fun isArray :: "jsval \<Rightarrow> bool" where
  "isArray (JArray xs) = True"
| "isArray v = False"

text \<open>The string held by a value of type string (read only behind a \<open>typeof\<close> test).\<close>

fun string_of :: "jsval \<Rightarrow> string" where
  "string_of (JStr s) = s"
| "string_of v = []"

text \<open>The property list of an object (read only behind the object tests).\<close>

fun props_of :: "jsval \<Rightarrow> (string \<times> jsval) list" where
  "props_of (JObject ps) = ps"
| "props_of v = []"

text \<open>\<^verbatim>\<open>xs.join(',')\<close> on strings.\<close>

fun join_comma :: "string list \<Rightarrow> string" where
  "join_comma [] = []"
| "join_comma [x] = x"
| "join_comma (x # y # ys) = x @ '','' @ join_comma (y # ys)"

text \<open>\<^verbatim>\<open>String(value)\<close>. An array prints its elements joined by commas, \<^verbatim>\<open>null\<close> and
  \<^verbatim>\<open>undefined\<close> elements as nothing.\<close>

fun String :: "js_runtime \<Rightarrow> jsval \<Rightarrow> string" where
  "String rt JUndefined = ''undefined''"
| "String rt JNull = ''null''"
| "String rt (JBool b) = (if b then ''true'' else ''false'')"
| "String rt (JNum n) = Number_toString rt n"
| "String rt (JStr s) = s"
| "String rt (JArray xs) =
     join_comma (map (\<lambda>x. if x = JNull \<or> x = JUndefined then [] else String rt x) xs)"
| "String rt (JObject ps) = ''[object Object]''"

text \<open>The rendering of a length in a template string.\<close>

definition show_length :: "js_runtime \<Rightarrow> nat \<Rightarrow> string" where
  "show_length rt n = Number_toString rt (Finite (real n))"

subsection \<open>Strings\<close>

definition is_upper :: "char \<Rightarrow> bool" where
  "is_upper c = (65 \<le> (of_char c :: nat) \<and> (of_char c :: nat) \<le> 90)"

definition is_lower :: "char \<Rightarrow> bool" where
  "is_lower c = (97 \<le> (of_char c :: nat) \<and> (of_char c :: nat) \<le> 122)"

definition is_digit :: "char \<Rightarrow> bool" where
  "is_digit c = (48 \<le> (of_char c :: nat) \<and> (of_char c :: nat) \<le> 57)"

text \<open>The class \<^verbatim>\<open>[a-zA-Z0-9-]\<close>.\<close>

definition is_name_char :: "char \<Rightarrow> bool" where
  "is_name_char c = (is_lower c \<or> is_upper c \<or> is_digit c \<or> c = CHR ''-'')"

text \<open>The class \<^verbatim>\<open>[a-z0-9-]\<close>.\<close>

definition is_lower_name_char :: "char \<Rightarrow> bool" where
  "is_lower_name_char c = (is_lower c \<or> is_digit c \<or> c = CHR ''-'')"

text \<open>White space as \<^verbatim>\<open>trim\<close> reads it, within ASCII: tab, LF, VT, FF, CR, space.\<close>

definition is_space :: "char \<Rightarrow> bool" where
  "is_space c = ((9 \<le> (of_char c :: nat) \<and> (of_char c :: nat) \<le> 13) \<or> c = CHR '' '')"

definition trim :: "string \<Rightarrow> string" where
  "trim s = rev (dropWhile is_space (rev (dropWhile is_space s)))"

definition lower_char :: "char \<Rightarrow> char" where
  "lower_char c = (if is_upper c then char_of ((of_char c :: nat) + 32) else c)"

definition toLowerCase :: "string \<Rightarrow> string" where
  "toLowerCase s = map lower_char s"

text \<open>\<^verbatim>\<open>s.includes(t)\<close>.\<close>

definition includes_str :: "string \<Rightarrow> string \<Rightarrow> bool" where
  "includes_str s t = sublist t s"

section \<open>The stack name generator\<close>

subsection \<open>sanitizeBranchName\<close>

text \<open>\<^verbatim>\<open>.replace(/[^a-zA-Z0-9-]/g, '-')\<close>\<close>

definition replace_invalid :: "string \<Rightarrow> string" where
  "replace_invalid s = map (\<lambda>c. if is_name_char c then c else CHR ''-'') s"

text \<open>\<^verbatim>\<open>.replace(/-+/g, '-')\<close>: every maximal run of hyphens becomes one hyphen.\<close>

fun collapse_hyphens :: "string \<Rightarrow> string" where
  "collapse_hyphens [] = []"
| "collapse_hyphens [c] = [c]"
| "collapse_hyphens (c # d # cs) =
     (if c = CHR ''-'' \<and> d = CHR ''-'' then collapse_hyphens (d # cs)
      else c # collapse_hyphens (d # cs))"

text \<open>\<^verbatim>\<open>.replace(/^-+|-+$/g, '')\<close>: the leading and the trailing run of hyphens go.\<close>

definition strip_hyphens :: "string \<Rightarrow> string" where
  "strip_hyphens s =
     rev (dropWhile (\<lambda>c. c = CHR ''-'') (rev (dropWhile (\<lambda>c. c = CHR ''-'') s)))"

definition sanitizeBranchName :: "string \<Rightarrow> js_error + string" where
  "sanitizeBranchName branchName =
     (if branchName = [] then Inl (Error ''Branch name cannot be empty'')
      else Inr (toLowerCase (strip_hyphens (collapse_hyphens (replace_invalid branchName)))))"

subsection \<open>getCurrentBranchName\<close>

text \<open>
  The catch block of \<^verbatim>\<open>getCurrentBranchName\<close>: it receives the error of
  \<^verbatim>\<open>execSync\<close> as well as the two errors thrown inside the try block.
\<close>

definition branch_catch :: "js_error \<Rightarrow> js_error" where
  "branch_catch error =
     (if code error = Some ''ENOENT'' then
        Error ''Git command not found. Please ensure Git is installed and available in PATH.''
      else if signal error = Some ''SIGTERM'' \<or> killed error then
        Error ''Git command timed out. The repository may be corrupted or inaccessible.''
      else if status error = Some 128 then
        Error ''Not a Git repository or Git repository is corrupted. Please ensure you are running this action in a valid Git repository.''
      else if status error = Some 129 then
        Error ''Invalid Git command or Git version is too old. Please ensure you have a recent version of Git installed.''
      else if includes_str (message error) ''Unable to determine current branch name'' then error
      else if includes_str (message error) ''Branch name is too long'' then error
      else Error (''Failed to determine current branch name: '' @ message error @
                  ''. Please ensure you are in a valid Git repository with at least one commit.''))"

text \<open>
  \<open>git\<close> is the outcome of \<^verbatim>\<open>execSync('git rev-parse --abbrev-ref HEAD', ...)\<close>:
  the error it throws (a missing binary, the 5 second timeout, a non-zero exit) or its
  output.
\<close>

definition getCurrentBranchName :: "js_runtime \<Rightarrow> js_error + string \<Rightarrow> js_error + string" where
  "getCurrentBranchName rt git =
     (case git of
        Inl error \<Rightarrow> Inl (branch_catch error)
      | Inr out \<Rightarrow>
          (let branchName = trim out in
           if branchName = [] \<or> branchName = ''HEAD'' then
             Inl (branch_catch (Error ''Unable to determine current branch name. You may be in a detached HEAD state or the repository may not have any commits.''))
           else if length branchName > 100 then
             Inl (branch_catch (Error (''Branch name is too long ('' @ show_length rt (length branchName) @
                    '' characters). Maximum supported length is 100 characters.'')))
           else Inr branchName))"

subsection \<open>generateStackName\<close>

text \<open>\<^verbatim>\<open>/^[a-zA-Z0-9-]+$/.test(s)\<close>\<close>

definition validNameRegex :: "string \<Rightarrow> bool" where
  "validNameRegex s = (s \<noteq> [] \<and> list_all is_name_char s)"

text \<open>\<^verbatim>\<open>!x || typeof x !== 'string' || x.trim() === ''\<close>\<close>

definition blank_or_not_string :: "jsval \<Rightarrow> bool" where
  "blank_or_not_string x = (\<not> truthy x \<or> typeof x \<noteq> ''string'' \<or> trim (string_of x) = [])"

definition stack_name_too_long :: "js_runtime \<Rightarrow> string \<Rightarrow> js_error" where
  "stack_name_too_long rt stackName =
     Error (''Generated stack name is too long ('' @ show_length rt (length stackName) @
            '' characters). CloudFormation stack names must be 128 characters or less.'')"

definition generateStackName ::
  "js_runtime \<Rightarrow> js_error + string \<Rightarrow> jsval \<Rightarrow> jsval \<Rightarrow> jsval \<Rightarrow> jsval \<Rightarrow> js_error + string" where
  "generateStackName rt git project stackPrefix isCiBuild environment =
     (if blank_or_not_string project then
        Inl (Error ''Project name is required and must be a non-empty string'')
      else if blank_or_not_string stackPrefix then
        Inl (Error ''Stack prefix is required and must be a non-empty string'')
      else if typeof isCiBuild \<noteq> ''boolean'' then
        Inl (Error ''CI build flag must be a boolean value'')
      else if \<not> validNameRegex (string_of project) then
        Inl (Error ''Project name contains invalid characters. Only alphanumeric characters and hyphens are allowed.'')
      else if \<not> validNameRegex (string_of stackPrefix) then
        Inl (Error ''Stack prefix contains invalid characters. Only alphanumeric characters and hyphens are allowed.'')
      else if length (string_of project) > 50 then
        Inl (Error (''Project name is too long ('' @ show_length rt (length (string_of project)) @
                    '' characters). Maximum length is 50 characters.''))
      else if length (string_of stackPrefix) > 50 then
        Inl (Error (''Stack prefix is too long ('' @ show_length rt (length (string_of stackPrefix)) @
                    '' characters). Maximum length is 50 characters.''))
      else
        (case
           (if truthy isCiBuild then
              (case getCurrentBranchName rt git of
                 Inl e \<Rightarrow> Inl e
               | Inr branchName \<Rightarrow>
                   (case sanitizeBranchName branchName of
                      Inl e \<Rightarrow> Inl e
                    | Inr sanitizedBranchName \<Rightarrow>
                        if sanitizedBranchName = [] then
                          Inl (Error ''Branch name resulted in empty string after sanitization. Please use a branch name with alphanumeric characters.'')
                        else Inr (string_of project @ ''-'' @ string_of stackPrefix @ ''-'' @ sanitizedBranchName)))
            else if blank_or_not_string environment then
              Inl (Error ''Environment is required for non-CI build stack name generation and must be a non-empty string'')
            else if \<not> validNameRegex (string_of environment) then
              Inl (Error ''Environment name contains invalid characters. Only alphanumeric characters and hyphens are allowed.'')
            else if length (string_of environment) > 50 then
              Inl (Error (''Environment name is too long ('' @ show_length rt (length (string_of environment)) @
                          '' characters). Maximum length is 50 characters.''))
            else Inr (string_of project @ ''-'' @ string_of stackPrefix @ ''-'' @ string_of environment))
         of
           Inl e \<Rightarrow> Inl e
         | Inr stackName \<Rightarrow>
             if length stackName > 128 then Inl (stack_name_too_long rt stackName)
             else Inr stackName))"

section \<open>The parameter merger\<close>

type_synonym props = "(string \<times> jsval) list"

text \<open>\<^verbatim>\<open>params[key]\<close>\<close>

definition get_prop :: "props \<Rightarrow> string \<Rightarrow> jsval" where
  "get_prop ps key = (case map_of ps key of None \<Rightarrow> JUndefined | Some v \<Rightarrow> v)"

text \<open>
  Object spread, \<^verbatim>\<open>{ ...target, ...source }\<close>: for every own key of the source in
  order, its value is read and defined on the target (an existing key keeps its place
  and takes the new value, a new key is appended).
\<close>

definition spread :: "props \<Rightarrow> props \<Rightarrow> props" where
  "spread target source =
     fold (\<lambda>key t. AList.update key (get_prop source key) t) (map fst source) target"

text \<open>\<^verbatim>\<open>typeof value === 'object' ? JSON.stringify(value) : String(value)\<close>\<close>

definition stringValue :: "js_runtime \<Rightarrow> jsval \<Rightarrow> string" where
  "stringValue rt v = (if typeof v = ''object'' then JSON_stringify rt v else String rt v)"

definition is_alpha :: "char \<Rightarrow> bool" where
  "is_alpha c = (is_lower c \<or> is_upper c)"

definition is_alnum :: "char \<Rightarrow> bool" where
  "is_alnum c = (is_lower c \<or> is_upper c \<or> is_digit c)"

text \<open>\<^verbatim>\<open>/^[a-zA-Z][a-zA-Z0-9]*$/.test(key)\<close>\<close>

definition parameterNameRegex :: "string \<Rightarrow> bool" where
  "parameterNameRegex key = (case key of [] \<Rightarrow> False | c # cs \<Rightarrow> is_alpha c \<and> list_all is_alnum cs)"

text \<open>The loop of \<^verbatim>\<open>validateParameterObject\<close> over \<^verbatim>\<open>Object.keys(params)\<close>;
  \<open>None\<close> when no key throws.\<close>

fun validateParameterKeys :: "js_runtime \<Rightarrow> string \<Rightarrow> props \<Rightarrow> string list \<Rightarrow> js_error option" where
  "validateParameterKeys rt type params [] = None"
| "validateParameterKeys rt type params (key # keys) =
     (if key = [] \<or> trim key = [] then
        Some (Error (''Invalid '' @ type @ '' parameter name: '' @ [CHR 0x27] @ key @ [CHR 0x27] @
                     ''. Parameter names must be non-empty strings.''))
      else if length key > 255 then
        Some (Error (type @ '' parameter name '' @ [CHR 0x27] @ key @ [CHR 0x27] @ '' is too long ('' @
                     show_length rt (length key) @ '' characters). Maximum length is 255 characters.''))
      else if \<not> parameterNameRegex key then
        Some (Error (type @ '' parameter name '' @ [CHR 0x27] @ key @ [CHR 0x27] @
                     '' contains invalid characters. Parameter names must start with a letter and contain only alphanumeric characters.''))
      else
        (let v = get_prop params key in
         if v = JNull \<or> v = JUndefined then
           Some (Error (type @ '' parameter '' @ [CHR 0x27] @ key @ [CHR 0x27] @ '' has null or undefined value''))
         else if length (stringValue rt v) > 4096 then
           Some (Error (type @ '' parameter '' @ [CHR 0x27] @ key @ [CHR 0x27] @ '' value is too long ('' @
                        show_length rt (length (stringValue rt v)) @
                        '' characters). Maximum length is 4096 characters.''))
         else validateParameterKeys rt type params keys))"

text \<open>\<open>None\<close>: the call returns; \<open>Some e\<close>: it throws \<open>e\<close>.\<close>

definition validateParameterObject :: "js_runtime \<Rightarrow> jsval \<Rightarrow> string \<Rightarrow> js_error option" where
  "validateParameterObject rt params type =
     (if \<not> truthy params \<or> typeof params \<noteq> ''object'' \<or> isArray params then
        Some (Error (type @ '' parameters must be a valid object''))
      else
        (let keys = map fst (props_of params) in
         if length keys > 200 then
           Some (Error (''Too many '' @ type @ '' parameters ('' @ show_length rt (length keys) @
                        ''). Maximum supported is 200 parameters.''))
         else validateParameterKeys rt type (props_of params) keys))"

text \<open>The loop of \<^verbatim>\<open>validateTagsObject\<close>.\<close>

fun validateTagKeys :: "js_runtime \<Rightarrow> string \<Rightarrow> props \<Rightarrow> string list \<Rightarrow> js_error option" where
  "validateTagKeys rt type tags [] = None"
| "validateTagKeys rt type tags (key # keys) =
     (if key = [] \<or> trim key = [] then
        Some (Error (''Invalid '' @ type @ '' tag name: '' @ [CHR 0x27] @ key @ [CHR 0x27] @
                     ''. Tag names must be non-empty strings.''))
      else if length key > 128 then
        Some (Error (type @ '' tag name '' @ [CHR 0x27] @ key @ [CHR 0x27] @ '' is too long ('' @
                     show_length rt (length key) @ '' characters). Maximum length is 128 characters.''))
      else
        (let v = get_prop tags key in
         if v = JNull \<or> v = JUndefined then
           Some (Error (type @ '' tag '' @ [CHR 0x27] @ key @ [CHR 0x27] @ '' has null or undefined value''))
         else if length (stringValue rt v) > 256 then
           Some (Error (type @ '' tag '' @ [CHR 0x27] @ key @ [CHR 0x27] @ '' value is too long ('' @
                        show_length rt (length (stringValue rt v)) @
                        '' characters). Maximum length is 256 characters.''))
         else validateTagKeys rt type tags keys))"

definition validateTagsObject :: "js_runtime \<Rightarrow> jsval \<Rightarrow> string \<Rightarrow> js_error option" where
  "validateTagsObject rt tags type =
     (if \<not> truthy tags \<or> typeof tags \<noteq> ''object'' \<or> isArray tags then
        Some (Error (type @ '' tags must be a valid object''))
      else
        (let keys = map fst (props_of tags) in
         if length keys > 50 then
           Some (Error (''Too many '' @ type @ '' tags ('' @ show_length rt (length keys) @
                        ''). Maximum supported is 50 tags.''))
         else validateTagKeys rt type (props_of tags) keys))"

text \<open>
  \<^verbatim>\<open>mergeParameters\<close>. Its try block throws what the validation throws; its catch block
  wraps the message. The action calls it for the parameter maps and, in \<^verbatim>\<open>run\<close>, for
  the tag maps as well (\<^verbatim>\<open>parameterMerger.mergeParameters(defaultTags, envTags)\<close>).
\<close>

definition merge_catch :: "js_error \<Rightarrow> js_error" where
  "merge_catch error = Error (''Failed to merge parameters: '' @ message error)"

definition mergeParameters :: "js_runtime \<Rightarrow> jsval \<Rightarrow> jsval \<Rightarrow> js_error + jsval" where
  "mergeParameters rt defaultParams envParams =
     (if \<not> truthy defaultParams \<or> typeof defaultParams \<noteq> ''object'' \<or> isArray defaultParams then
        Inl (Error ''Default parameters must be a valid object (not an array)'')
      else if envParams \<noteq> JNull \<and> envParams \<noteq> JUndefined \<and>
              (typeof envParams \<noteq> ''object'' \<or> isArray envParams) then
        Inl (Error ''Environment parameters must be a valid object (not an array) or null'')
      else if \<not> truthy envParams \<or> typeof envParams \<noteq> ''object'' then
        Inr (JObject (spread [] (props_of defaultParams)))
      else
        (case validateParameterObject rt defaultParams ''default'' of
           Some e \<Rightarrow> Inl (merge_catch e)
         | None \<Rightarrow>
             (case validateParameterObject rt envParams ''environment'' of
                Some e \<Rightarrow> Inl (merge_catch e)
              | None \<Rightarrow> Inr (JObject (spread (spread [] (props_of defaultParams)) (props_of envParams))))))"

text \<open>
  References. The caller holds its maps by reference: a heap is the list of the objects
  allocated so far, an address is an index into it, and an argument is a primitive value
  or the address of an object. An object literal allocates: the object
  \<^verbatim>\<open>mergeParameters\<close> returns is a new cell at the end of the heap, and no statement of
  the function writes to a cell that exists.
\<close>

datatype jsarg = Prim jsval | Ref nat

type_synonym heap = "jsval list"

definition deref :: "heap \<Rightarrow> jsarg \<Rightarrow> jsval" where
  "deref h a = (case a of Prim v \<Rightarrow> v | Ref n \<Rightarrow> if n < length h then h ! n else JUndefined)"

definition mergeParameters_heap ::
  "js_runtime \<Rightarrow> heap \<Rightarrow> jsarg \<Rightarrow> jsarg \<Rightarrow> (js_error + jsarg) \<times> heap" where
  "mergeParameters_heap rt h defaultParams envParams =
     (case mergeParameters rt (deref h defaultParams) (deref h envParams) of
        Inl e \<Rightarrow> (Inl e, h)
      | Inr obj \<Rightarrow> (Inr (Ref (length h)), h @ [obj]))"

section \<open>The configuration reader\<close>

text \<open>
  What the file system answers for a path: \<^verbatim>\<open>fs.stat\<close> throws, or the path is not
  a regular file (\<^verbatim>\<open>stats.isFile()\<close> is false), or it is one and \<^verbatim>\<open>fs.readFile\<close>
  throws or returns the content.
\<close>

datatype fs_node = StatFails js_error | NotAFile | File "js_error + string"

definition reader_rethrows :: "js_error \<Rightarrow> bool" where
  "reader_rethrows error =
     (includes_str (message error) ''Invalid JSON format'' \<or>
      includes_str (message error) ''must be a JSON object'' \<or>
      includes_str (message error) ''is empty'' \<or>
      includes_str (message error) ''must be a valid string'')"

text \<open>\<^verbatim>\<open>!params || typeof params !== 'object' || Array.isArray(params)\<close>\<close>

definition not_json_object :: "jsval \<Rightarrow> bool" where
  "not_json_object v = (\<not> truthy v \<or> typeof v \<noteq> ''object'' \<or> isArray v)"

subsection \<open>readDefaultParameters\<close>

definition default_params_try :: "js_runtime \<Rightarrow> (string \<Rightarrow> fs_node) \<Rightarrow> string \<Rightarrow> js_error + jsval" where
  "default_params_try rt fs defaultParamsPath =
     (case fs defaultParamsPath of
        StatFails e \<Rightarrow> Inl e
      | NotAFile \<Rightarrow> Inl (Error (''Default parameters path exists but is not a file: '' @ defaultParamsPath))
      | File (Inl e) \<Rightarrow> Inl e
      | File (Inr paramsContent) \<Rightarrow>
          if trim paramsContent = [] then
            Inl (Error (''Default parameters file is empty: '' @ defaultParamsPath @
                        ''. Expected at least an empty JSON object {}.''))
          else
            (case JSON_parse rt paramsContent of
               Inl parseError \<Rightarrow>
                 Inl (Error (''Invalid JSON format in default.json at '' @ defaultParamsPath @ '': '' @
                             parseError @ ''. Please check the JSON syntax.''))
             | Inr params \<Rightarrow>
                 if not_json_object params then
                   Inl (Error (''Default parameters must be a JSON object, got '' @ typeof params))
                 else Inr params))"

definition default_params_catch :: "string \<Rightarrow> js_error \<Rightarrow> js_error + jsval" where
  "default_params_catch defaultParamsPath error =
     (if code error = Some ''ENOENT'' then
        Inl (Error (''Default parameters file not found: '' @ defaultParamsPath @
                    ''. Please ensure the file exists in the params subdirectory.''))
      else if code error = Some ''EACCES'' then
        Inl (Error (''Permission denied accessing default parameters file: '' @ defaultParamsPath @
                    ''. Please check file permissions.''))
      else if code error = Some ''EISDIR'' then
        Inl (Error (''Expected file but found directory: '' @ defaultParamsPath @
                    ''. Please ensure default.json is a file, not a directory.''))
      else if reader_rethrows error then Inl error
      else Inl (Error (''Failed to read default parameters from '' @ defaultParamsPath @ '': '' @ message error)))"

definition readDefaultParameters :: "js_runtime \<Rightarrow> (string \<Rightarrow> fs_node) \<Rightarrow> jsval \<Rightarrow> js_error + jsval" where
  "readDefaultParameters rt fs folderPath =
     (if \<not> truthy folderPath \<or> typeof folderPath \<noteq> ''string'' then
        Inl (Error ''Folder path must be a valid string'')
      else
        (let defaultParamsPath = path_join rt [string_of folderPath, ''params'', ''default.json''] in
         case default_params_try rt fs defaultParamsPath of
           Inl error \<Rightarrow> default_params_catch defaultParamsPath error
         | Inr params \<Rightarrow> Inr params))"

subsection \<open>readDefaultTags\<close>

definition default_tags_try :: "js_runtime \<Rightarrow> (string \<Rightarrow> fs_node) \<Rightarrow> string \<Rightarrow> js_error + jsval" where
  "default_tags_try rt fs defaultTagsPath =
     (case fs defaultTagsPath of
        StatFails e \<Rightarrow> Inl e
      | NotAFile \<Rightarrow> Inl (Error (''Default tags path exists but is not a file: '' @ defaultTagsPath))
      | File (Inl e) \<Rightarrow> Inl e
      | File (Inr tagsContent) \<Rightarrow>
          if trim tagsContent = [] then
            Inl (Error (''Default tags file is empty: '' @ defaultTagsPath @
                        ''. Expected at least an empty JSON object {}.''))
          else
            (case JSON_parse rt tagsContent of
               Inl parseError \<Rightarrow>
                 Inl (Error (''Invalid JSON format in default.json at '' @ defaultTagsPath @ '': '' @
                             parseError @ ''. Please check the JSON syntax.''))
             | Inr tags \<Rightarrow>
                 if not_json_object tags then
                   Inl (Error (''Default tags must be a JSON object, got '' @ typeof tags))
                 else Inr tags))"

text \<open>The catch block: \<^verbatim>\<open>// Tags are optional, return empty object if not found\<close>.\<close>

definition default_tags_catch :: "string \<Rightarrow> js_error \<Rightarrow> js_error + jsval" where
  "default_tags_catch defaultTagsPath error =
     (if code error = Some ''ENOENT'' then Inr (JObject [])
      else if code error = Some ''EACCES'' then
        Inl (Error (''Permission denied accessing default tags file: '' @ defaultTagsPath @
                    ''. Please check file permissions.''))
      else if code error = Some ''EISDIR'' then
        Inl (Error (''Expected file but found directory: '' @ defaultTagsPath @
                    ''. Please ensure default.json is a file, not a directory.''))
      else if reader_rethrows error then Inl error
      else Inl (Error (''Failed to read default tags from '' @ defaultTagsPath @ '': '' @ message error)))"

definition readDefaultTags :: "js_runtime \<Rightarrow> (string \<Rightarrow> fs_node) \<Rightarrow> jsval \<Rightarrow> js_error + jsval" where
  "readDefaultTags rt fs folderPath =
     (if \<not> truthy folderPath \<or> typeof folderPath \<noteq> ''string'' then
        Inl (Error ''Folder path must be a valid string'')
      else
        (let defaultTagsPath = path_join rt [string_of folderPath, ''tags'', ''default.json''] in
         case default_tags_try rt fs defaultTagsPath of
           Inl error \<Rightarrow> default_tags_catch defaultTagsPath error
         | Inr tags \<Rightarrow> Inr tags))"

section \<open>The CI build id generator\<close>

definition alphabet :: string where
  "alphabet = ''abcdefghijklmnopqrstuvwxyz''"

text \<open>\<^verbatim>\<open>result += alphabet[randomIndex]\<close>: an index outside the string reads
  \<^verbatim>\<open>undefined\<close>, which \<^verbatim>\<open>+=\<close> appends as text.\<close>

definition append_letter :: "string \<Rightarrow> int \<Rightarrow> string" where
  "append_letter result randomIndex =
     (if 0 \<le> randomIndex \<and> randomIndex < int (length alphabet)
      then result @ [alphabet ! nat randomIndex] else result @ ''undefined'')"

text \<open>
  The loop \<^verbatim>\<open>for (let i = 0; i < length; i++)\<close>. \<open>random i\<close> is what the call of
  \<^verbatim>\<open>Math.random()\<close> in round \<open>i\<close> does: it throws or returns a number.
\<close>

function random_loop :: "(nat \<Rightarrow> js_error + real) \<Rightarrow> nat \<Rightarrow> nat \<Rightarrow> string \<Rightarrow> js_error + string" where
  "random_loop random i n result =
     (if i < n then
        (case random i of
           Inl e \<Rightarrow> Inl e
         | Inr r \<Rightarrow> random_loop random (Suc i) n (append_letter result \<lfloor>r * real (length alphabet)\<rfloor>))
      else Inr result)"
  by pat_completeness auto
termination
  by (relation "measure (\<lambda>(random, i, n, result). n - i)") auto

definition validateIdFormat :: "jsval \<Rightarrow> bool" where
  "validateIdFormat ident =
     (if typeof ident \<noteq> ''string'' then False
      else if length (string_of ident) < 6 \<or> length (string_of ident) > 10 then False
      else string_of ident \<noteq> [] \<and> list_all is_lower (string_of ident))"

text \<open>\<^verbatim>\<open>Number.isInteger(x)\<close>\<close>

fun isInteger :: "jsval \<Rightarrow> bool" where
  "isInteger (JNum (Finite r)) = (real_of_int \<lfloor>r\<rfloor> = r)"
| "isInteger v = False"

text \<open>The value of a finite number (read only behind \<open>isInteger\<close>).\<close>

fun number_of :: "jsval \<Rightarrow> real" where
  "number_of (JNum (Finite r)) = r"
| "number_of v = 0"

text \<open>
  \<^verbatim>\<open>generateRandomId(length = 8)\<close>: the default initialiser applies when the argument is
  missing or \<^verbatim>\<open>undefined\<close>.
\<close>

definition generateRandomId :: "js_runtime \<Rightarrow> (nat \<Rightarrow> js_error + real) \<Rightarrow> jsval \<Rightarrow> js_error + string" where
  "generateRandomId rt random arg =
     (let len = (if arg = JUndefined then JNum (Finite 8) else arg) in
      if typeof len \<noteq> ''number'' then
        Inl (Error (''Random ID length must be a number, got '' @ typeof len))
      else if \<not> isInteger len then
        Inl (Error ''Random ID length must be an integer'')
      else if number_of len < 6 \<or> number_of len > 10 then
        Inl (Error (''Random ID length must be between 6 and 10 characters, got '' @ String rt len))
      else
        (case random_loop random 0 (nat \<lfloor>number_of len\<rfloor>) [] of
           Inl error \<Rightarrow> Inl (Error (''Failed to generate random ID: '' @ message error))
         | Inr result \<Rightarrow>
             if \<not> validateIdFormat (JStr result) then
               Inl (Error (''Generated ID failed validation: '' @ result))
             else Inr result))"

section \<open>Auxiliary notions of the proofs\<close>

text \<open>A string without two adjacent hyphens.\<close>

fun no_double :: "string \<Rightarrow> bool" where
  "no_double [] = True"
| "no_double [c] = True"
| "no_double (c # d # cs) = (\<not> (c = CHR ''-'' \<and> d = CHR ''-'') \<and> no_double (d # cs))"

text \<open>
  A runtime for the evaluations at concrete inputs: numbers print in decimal (the ones
  printed are lengths), \<^verbatim>\<open>path.join\<close> joins with a slash, and the parser knows the
  empty object and the empty array.
\<close>

fun join_slash :: "string list \<Rightarrow> string" where
  "join_slash [] = []"
| "join_slash [x] = x"
| "join_slash (x # y # ys) = x @ ''/'' @ join_slash (y # ys)"

function decimal :: "nat \<Rightarrow> string" where
  "decimal n = (if n < 10 then [char_of (48 + n)] else decimal (n div 10) @ [char_of (48 + n mod 10)])"
  by pat_completeness auto
termination
  by (relation "measure id") auto

definition sample_runtime :: js_runtime where
  "sample_runtime =
     \<lparr>Number_toString = (\<lambda>n. case n of Finite r \<Rightarrow> decimal (nat \<lfloor>r\<rfloor>) | NaN \<Rightarrow> ''NaN''
                            | PosInfinity \<Rightarrow> ''Infinity'' | NegInfinity \<Rightarrow> ''-Infinity''),
      JSON_stringify = (\<lambda>v. ''{}''),
      JSON_parse = (\<lambda>s. if s = ''{}'' then Inr (JObject []) else if s = ''[]'' then Inr (JArray [])
                          else Inl ''Unexpected token''),
      path_join = join_slash\<rparr>"

text \<open>The branch lookup throws, or returns nothing but white space, or \<^verbatim>\<open>HEAD\<close>.\<close>

definition lookup_failed :: "js_error + string \<Rightarrow> bool" where
  "lookup_failed git = (case git of Inl e \<Rightarrow> True | Inr out \<Rightarrow> trim out = [] \<or> trim out = ''HEAD'')"

text \<open>The error of \<^verbatim>\<open>execSync\<close> when the timeout kills the process.\<close>

definition timeout_error :: js_error where
  "timeout_error = \<lparr>code = Some ''ETIMEDOUT'', signal = Some ''SIGTERM'', killed = True,
     status = None, message = ''spawnSync /bin/sh ETIMEDOUT''\<rparr>"

text \<open>Maps for the evaluations of the merge.\<close>

definition sample_base :: props where
  "sample_base = [(''a'', JStr ''x''), (''b'', JStr ''y'')]"

definition sample_override :: props where
  "sample_override = [(''a'', JNum (Finite 0)), (''c'', JBool False), (''d'', JStr [])]"

definition fifty_one_tags :: props where
  "fifty_one_tags = map (\<lambda>n. (''T'' @ replicate n (CHR ''a''), JStr ''v'')) [0..<51]"

text \<open>The file is absent: \<^verbatim>\<open>fs.stat\<close> or \<^verbatim>\<open>fs.readFile\<close> throws \<^verbatim>\<open>ENOENT\<close>.\<close>

definition node_missing :: "fs_node \<Rightarrow> bool" where
  "node_missing node =
     (case node of StatFails e \<Rightarrow> code e = Some ''ENOENT''
      | NotAFile \<Rightarrow> False
      | File r \<Rightarrow> (case r of Inl e \<Rightarrow> code e = Some ''ENOENT'' | Inr content \<Rightarrow> False))"

text \<open>Two errors of the file system.\<close>

definition enoent_error :: js_error where
  "enoent_error = \<lparr>code = Some ''ENOENT'', signal = None, killed = False, status = None,
     message = ''ENOENT: no such file or directory, stat''\<rparr>"

definition eacces_error :: js_error where
  "eacces_error = \<lparr>code = Some ''EACCES'', signal = None, killed = False, status = None,
     message = ''EACCES: permission denied, stat''\<rparr>"

section \<open>Properties of the stack name generator\<close>

subsection \<open>Characters\<close>

lemma lower_char_hyphen: "lower_char c = CHR ''-'' \<longleftrightarrow> c = CHR ''-''"
proof (cases "is_upper c")
  case True
  then have "(of_char (lower_char c) :: nat) = of_char c + 32"
    by (simp add: lower_char_def is_upper_def)
  with True show ?thesis by (auto simp: is_upper_def)
next
  case False
  then show ?thesis by (simp add: lower_char_def)
qed

lemma lower_char_idem: "lower_char (lower_char c) = lower_char c"
  by (auto simp: lower_char_def is_upper_def)

lemma lower_name_char: "is_name_char c \<Longrightarrow> is_lower_name_char (lower_char c)"
  by (auto simp: lower_char_def is_name_char_def is_lower_name_char_def is_upper_def
      is_lower_def is_digit_def)

lemma lower_is_name_char: "is_lower_name_char c \<Longrightarrow> is_name_char c"
  by (auto simp: is_name_char_def is_lower_name_char_def)

lemma list_all_subset: "set ys \<subseteq> set xs \<Longrightarrow> list_all P xs \<Longrightarrow> list_all P ys"
  by (auto simp: list_all_iff)

subsection \<open>The three replacements\<close>

lemma replace_invalid_all: "list_all is_name_char (replace_invalid s)"
  by (induction s) (auto simp: replace_invalid_def is_name_char_def)

lemma replace_invalid_fixed: "list_all is_name_char s \<Longrightarrow> replace_invalid s = s"
  by (induction s) (auto simp: replace_invalid_def)

lemma collapse_Cons: "\<exists>ys. collapse_hyphens (c # cs) = c # ys"
  by (induction "c # cs" arbitrary: c cs rule: collapse_hyphens.induct) auto

lemma no_double_collapse: "no_double (collapse_hyphens s)"
proof (induction s rule: collapse_hyphens.induct)
  case (3 c d cs)
  obtain ys where ys: "collapse_hyphens (d # cs) = d # ys"
    using collapse_Cons by blast
  with 3 show ?case by auto
qed simp_all

lemma collapse_fixed: "no_double s \<Longrightarrow> collapse_hyphens s = s"
  by (induction s rule: collapse_hyphens.induct) auto

lemma set_collapse: "set (collapse_hyphens s) \<subseteq> set s"
  by (induction s rule: collapse_hyphens.induct) auto

lemma collapse_map:
  "(\<And>c. f c = CHR ''-'' \<longleftrightarrow> c = CHR ''-'') \<Longrightarrow>
   collapse_hyphens (map f s) = map f (collapse_hyphens s)"
  by (induction s rule: collapse_hyphens.induct) auto

lemma no_double_sublist: "no_double s \<longleftrightarrow> \<not> sublist ''--'' s"
  by (induction s rule: no_double.induct) (auto simp: sublist_Cons_right)

lemma no_hyphen_pair_rev: "\<not> sublist ''--'' x \<Longrightarrow> \<not> sublist ''--'' (rev x)"
  using sublist_rev [of "''--''" x] by simp

lemma no_hyphen_pair_dropWhile: "\<not> sublist ''--'' x \<Longrightarrow> \<not> sublist ''--'' (dropWhile P x)"
proof -
  have "sublist (dropWhile P x) x"
    using suffix_dropWhile suffix_imp_sublist by blast
  then show "\<not> sublist ''--'' x \<Longrightarrow> \<not> sublist ''--'' (dropWhile P x)"
    using sublist_order.order_trans by blast
qed

lemma no_double_strip: "no_double s \<Longrightarrow> no_double (strip_hyphens s)"
  unfolding no_double_sublist strip_hyphens_def
  by (intro no_hyphen_pair_rev no_hyphen_pair_dropWhile)

lemma set_strip: "set (strip_hyphens s) \<subseteq> set s"
  unfolding strip_hyphens_def
  by (metis set_dropWhileD set_rev subsetI)

lemma strip_map:
  "(\<And>c. f c = CHR ''-'' \<longleftrightarrow> c = CHR ''-'') \<Longrightarrow>
   strip_hyphens (map f s) = map f (strip_hyphens s)"
  by (simp add: strip_hyphens_def dropWhile_map rev_map comp_def)

text \<open>Stripping twice strips once: what is left neither starts nor ends with a hyphen.\<close>

lemma strip_strip: "strip_hyphens (strip_hyphens s) = strip_hyphens s"
proof -
  let ?P = "\<lambda>c. c = CHR ''-''"
  define y where "y = dropWhile ?P s"
  define z where "z = rev (dropWhile ?P (rev y))"
  have hy: "y = [] \<or> \<not> ?P (hd y)"
    unfolding y_def using hd_dropWhile by blast
  have "rev (takeWhile ?P (rev y) @ dropWhile ?P (rev y)) = y"
    by (simp only: takeWhile_dropWhile_id rev_rev_ident)
  then have pre: "y = z @ rev (takeWhile ?P (rev y))"
    by (simp only: rev_append z_def)
  have dz: "dropWhile ?P z = z"
  proof (cases z)
    case Nil
    then show ?thesis by simp
  next
    case (Cons a zs)
    with pre have "hd y = a"
      by (metis hd_append2 list.sel(1) list.distinct(1))
    moreover from Cons pre have "y \<noteq> []" by auto
    ultimately have "\<not> ?P a" using hy by auto
    with Cons show ?thesis by simp
  qed
  have "strip_hyphens z = rev (dropWhile ?P (rev z))"
    by (simp add: strip_hyphens_def dz)
  also have "\<dots> = z" by (simp add: z_def)
  finally show ?thesis by (simp add: strip_hyphens_def z_def y_def)
qed

subsection \<open>sanitizeBranchName\<close>

lemma sanitize_chain_charset:
  "list_all is_lower_name_char (toLowerCase (strip_hyphens (collapse_hyphens (replace_invalid s))))"
proof -
  have "list_all is_name_char (strip_hyphens (collapse_hyphens (replace_invalid s)))"
    by (intro list_all_subset [OF set_strip] list_all_subset [OF set_collapse] replace_invalid_all)
  then show ?thesis
    by (auto simp: toLowerCase_def list_all_iff lower_name_char)
qed

lemma sanitize_chain_idem:
  assumes "r = toLowerCase (strip_hyphens (collapse_hyphens (replace_invalid s)))"
  shows "toLowerCase (strip_hyphens (collapse_hyphens (replace_invalid r))) = r"
proof -
  define t where "t = strip_hyphens (collapse_hyphens (replace_invalid s))"
  have r: "r = toLowerCase t" by (simp add: assms t_def)
  have nd: "no_double t"
    unfolding t_def by (intro no_double_strip no_double_collapse)
  have st: "strip_hyphens t = t"
    unfolding t_def by (rule strip_strip)
  have "list_all is_lower_name_char r"
    unfolding assms by (rule sanitize_chain_charset)
  then have "list_all is_name_char r"
    by (auto simp: list_all_iff lower_is_name_char)
  then have "replace_invalid r = r"
    by (rule replace_invalid_fixed)
  moreover have "collapse_hyphens r = r"
    unfolding r toLowerCase_def by (simp add: collapse_map lower_char_hyphen collapse_fixed nd)
  moreover have "strip_hyphens r = r"
    unfolding r toLowerCase_def by (simp add: strip_map lower_char_hyphen st)
  moreover have "toLowerCase r = r"
    unfolding r by (simp add: toLowerCase_def lower_char_idem)
  ultimately show ?thesis by simp
qed

text \<open>
  Claim C2, as the code has it. \<^verbatim>\<open>sanitizeBranchName\<close> throws on the empty string
  (\<^verbatim>\<open>Branch name cannot be empty\<close>). On every other string it returns a string, possibly
  empty, of characters in \<^verbatim>\<open>[a-z0-9-]\<close>; and sanitizing that result again gives the
  same result whenever the result is not empty.
\<close>

theorem sanitizeBranchName_nonempty_idempotent:
  "sanitizeBranchName [] = Inl (Error ''Branch name cannot be empty'') \<and>
   (s \<noteq> [] \<longrightarrow>
     (\<exists>r. sanitizeBranchName s = Inr r \<and> list_all is_lower_name_char r \<and>
          (r \<noteq> [] \<longrightarrow> sanitizeBranchName r = Inr r)))"
  using sanitize_chain_idem [OF refl, of s] sanitize_chain_charset [of s]
  by (simp add: sanitizeBranchName_def)

theorem sanitizeBranchName_witness:
  "''Fix_A'' \<noteq> [] \<and> sanitizeBranchName ''Fix_A'' = Inr ''fix-a'' \<and>
   list_all is_lower_name_char ''fix-a'' \<and> ''fix-a'' \<noteq> [] \<and>
   sanitizeBranchName ''fix-a'' = Inr ''fix-a''"
proof -
  have "sanitizeBranchName ''Fix_A'' = Inr ''fix-a''" by code_simp
  then show ?thesis
    using sanitizeBranchName_nonempty_idempotent [of "''Fix_A''"] by simp
qed

text \<open>
  The claim as stated fails twice: the empty string has no result, and \<^verbatim>\<open>@@@\<close>
  sanitizes to the empty string, on which the second application throws.
\<close>

theorem sanitizeBranchName_not_total_counterexample:
  "sanitizeBranchName ''@@@'' = Inr [] \<and>
   sanitizeBranchName [] = Inl (Error ''Branch name cannot be empty'')"
  by code_simp

subsection \<open>getCurrentBranchName and generateStackName\<close>

lemma includes_str_append: "includes_str (p @ t @ q) t"
  by (simp add: includes_str_def)

lemma includes_str_prefix: "includes_str (t @ q) t"
  using includes_str_append [of "[]" t q] by simp

lemma trim_empty_iff: "trim s = [] \<longleftrightarrow> list_all is_space s"
proof -
  have "dropWhile is_space s = [] \<longleftrightarrow> list_all is_space s"
    by (simp add: dropWhile_eq_Nil_conv list_all_iff)
  moreover have "trim s = [] \<longleftrightarrow> dropWhile is_space s = []"
  proof
    assume "trim s = []"
    then have "dropWhile is_space (rev (dropWhile is_space s)) = []"
      by (simp add: trim_def)
    then have all: "\<forall>c\<in>set (dropWhile is_space s). is_space c"
      by (simp only: dropWhile_eq_Nil_conv set_rev)
    show "dropWhile is_space s = []"
    proof (rule ccontr)
      assume ne: "dropWhile is_space s \<noteq> []"
      then have "\<not> is_space (hd (dropWhile is_space s))" by (rule hd_dropWhile)
      moreover from ne have "hd (dropWhile is_space s) \<in> set (dropWhile is_space s)" by simp
      ultimately show False using all by blast
    qed
  next
    assume a: "dropWhile is_space s = []"
    show "trim s = []" unfolding trim_def a by simp
  qed
  ultimately show ?thesis by simp
qed

lemma name_char_not_space: "is_name_char c \<Longrightarrow> \<not> is_space c"
  by (auto simp: is_name_char_def is_space_def is_lower_def is_upper_def is_digit_def)

lemma valid_name_not_blank: "validNameRegex p \<Longrightarrow> \<not> blank_or_not_string (JStr p)"
proof -
  assume v: "validNameRegex p"
  then obtain c cs where p: "p = c # cs" by (cases p) (auto simp: validNameRegex_def)
  with v have "is_name_char c" by (simp add: validNameRegex_def)
  then have "\<not> list_all is_space p" using p name_char_not_space by auto
  then show ?thesis using p by (simp add: blank_or_not_string_def trim_empty_iff)
qed

lemma branch_catch_unable:
  "branch_catch (Error (''Unable to determine current branch name'' @ q)) =
     Error (''Unable to determine current branch name'' @ q)"
  using includes_str_prefix [of "''Unable to determine current branch name''" q]
  by (simp add: branch_catch_def Error_def)

lemma branch_catch_too_long:
  "branch_catch (Error (''Branch name is too long'' @ q)) = Error (''Branch name is too long'' @ q)"
  using includes_str_prefix [of "''Branch name is too long''" q]
  by (simp add: branch_catch_def Error_def)

lemma getCurrentBranchName_unable:
  assumes "trim out = [] \<or> trim out = ''HEAD''"
  shows "getCurrentBranchName rt (Inr out) =
     Inl (Error ''Unable to determine current branch name. You may be in a detached HEAD state or the repository may not have any commits.'')"
proof -
  have "branch_catch (Error ''Unable to determine current branch name. You may be in a detached HEAD state or the repository may not have any commits.'') =
      Error ''Unable to determine current branch name. You may be in a detached HEAD state or the repository may not have any commits.''"
    using branch_catch_unable [of "''. You may be in a detached HEAD state or the repository may not have any commits.''"]
    by simp
  with assms show ?thesis
    by (simp add: getCurrentBranchName_def Let_def)
qed

lemma getCurrentBranchName_too_long:
  assumes "100 < length (trim out)"
  shows "getCurrentBranchName rt (Inr out) =
     Inl (Error (''Branch name is too long ('' @ show_length rt (length (trim out)) @
                 '' characters). Maximum supported length is 100 characters.''))"
proof -
  from assms have ne: "trim out \<noteq> []" "trim out \<noteq> ''HEAD''" by auto
  have "branch_catch (Error (''Branch name is too long ('' @ show_length rt (length (trim out)) @
                 '' characters). Maximum supported length is 100 characters.'')) =
      Error (''Branch name is too long ('' @ show_length rt (length (trim out)) @
                 '' characters). Maximum supported length is 100 characters.'')"
    using branch_catch_too_long [of "'' ('' @ show_length rt (length (trim out)) @
                 '' characters). Maximum supported length is 100 characters.''"]
    by simp
  with assms ne show ?thesis
    by (simp add: getCurrentBranchName_def Let_def)
qed

lemma generateStackName_build:
  assumes "validNameRegex p" "length p \<le> 50" "validNameRegex s" "length s \<le> 50"
  shows "generateStackName rt git (JStr p) (JStr s) (JBool True) environment =
     (case getCurrentBranchName rt git of
        Inl e \<Rightarrow> Inl e
      | Inr branchName \<Rightarrow>
          (case sanitizeBranchName branchName of
             Inl e \<Rightarrow> Inl e
           | Inr b \<Rightarrow>
               if b = [] then
                 Inl (Error ''Branch name resulted in empty string after sanitization. Please use a branch name with alphanumeric characters.'')
               else if length (p @ ''-'' @ s @ ''-'' @ b) > 128 then
                 Inl (stack_name_too_long rt (p @ ''-'' @ s @ ''-'' @ b))
               else Inr (p @ ''-'' @ s @ ''-'' @ b)))"
  using assms valid_name_not_blank [of p] valid_name_not_blank [of s]
  by (simp add: generateStackName_def split: sum.splits)

lemma generateStackName_deploy:
  assumes "validNameRegex p" "length p \<le> 50" "validNameRegex s" "length s \<le> 50"
    and "validNameRegex t" "length t \<le> 50"
  shows "generateStackName rt git (JStr p) (JStr s) (JBool False) (JStr t) =
     (if length (p @ ''-'' @ s @ ''-'' @ t) > 128
      then Inl (stack_name_too_long rt (p @ ''-'' @ s @ ''-'' @ t))
      else Inr (p @ ''-'' @ s @ ''-'' @ t))"
  using assms valid_name_not_blank [of p] valid_name_not_blank [of s] valid_name_not_blank [of t]
  by (simp add: generateStackName_def)

lemma generateStackName_build_isl:
  "isl (getCurrentBranchName rt git) \<Longrightarrow>
   isl (generateStackName rt git project stackPrefix (JBool True) environment)"
  by (auto simp: generateStackName_def split: sum.splits)


lemma generateStackName_deploy_result:
  "generateStackName rt git project stackPrefix (JBool False) environment = Inr name \<Longrightarrow>
   name = string_of project @ ''-'' @ string_of stackPrefix @ ''-'' @ string_of environment \<and>
   length name \<le> 128"
  by (auto simp: generateStackName_def split: if_splits)

text \<open>
  Claim C8. In deployment mode, valid \<open>project\<close>, \<open>stackPrefix\<close> and \<open>environment\<close>
  whose composition with two hyphens is longer than 128 characters are rejected with the
  name-too-long error; and whatever name \<^verbatim>\<open>generateStackName\<close> returns in that mode is
  the whole composition, of at most 128 characters: it never returns a shortened name.
\<close>

theorem name_longer_than_128_rejected:
  "(validNameRegex p \<and> length p \<le> 50 \<and> validNameRegex s \<and> length s \<le> 50 \<and>
    validNameRegex t \<and> length t \<le> 50 \<and> 128 < length (p @ ''-'' @ s @ ''-'' @ t) \<longrightarrow>
      generateStackName rt git (JStr p) (JStr s) (JBool False) (JStr t) =
        Inl (stack_name_too_long rt (p @ ''-'' @ s @ ''-'' @ t))) \<and>
   (generateStackName rt git project stackPrefix (JBool False) environment = Inr name \<longrightarrow>
      name = string_of project @ ''-'' @ string_of stackPrefix @ ''-'' @ string_of environment \<and>
      length name \<le> 128)"
  using generateStackName_deploy [of p s t rt git]
    generateStackName_deploy_result [of rt git project stackPrefix environment name]
  by simp

theorem name_longer_than_128_rejected_witness:
  "validNameRegex (replicate 50 (CHR ''a'')) \<and> length (replicate 50 (CHR ''a'')) \<le> 50 \<and>
   validNameRegex (replicate 50 (CHR ''b'')) \<and> length (replicate 50 (CHR ''b'')) \<le> 50 \<and>
   validNameRegex (replicate 50 (CHR ''c'')) \<and> length (replicate 50 (CHR ''c'')) \<le> 50 \<and>
   128 < length (replicate 50 (CHR ''a'') @ ''-'' @ replicate 50 (CHR ''b'') @ ''-'' @ replicate 50 (CHR ''c'')) \<and>
   generateStackName sample_runtime (Inr ''main'') (JStr (replicate 50 (CHR ''a'')))
       (JStr (replicate 50 (CHR ''b''))) (JBool False) (JStr (replicate 50 (CHR ''c''))) =
     Inl (Error ''Generated stack name is too long (152 characters). CloudFormation stack names must be 128 characters or less.'') \<and>
   generateStackName sample_runtime (Inr ''main'') (JStr ''my-project'') (JStr ''api-v1'') (JBool False) (JStr ''dev-env'') =
     Inr ''my-project-api-v1-dev-env'' \<and>
   ''my-project-api-v1-dev-env'' = string_of (JStr ''my-project'') @ ''-'' @ string_of (JStr ''api-v1'') @ ''-'' @ string_of (JStr ''dev-env'') \<and>
   length ''my-project-api-v1-dev-env'' \<le> 128"
proof -
  have v: "validNameRegex (replicate 50 (CHR ''a''))" "validNameRegex (replicate 50 (CHR ''b''))"
    "validNameRegex (replicate 50 (CHR ''c''))"
    by code_simp+
  have m: "stack_name_too_long sample_runtime
      (replicate 50 (CHR ''a'') @ ''-'' @ replicate 50 (CHR ''b'') @ ''-'' @ replicate 50 (CHR ''c'')) =
     Error ''Generated stack name is too long (152 characters). CloudFormation stack names must be 128 characters or less.''"
    by code_simp
  have e: "generateStackName sample_runtime (Inr ''main'') (JStr ''my-project'') (JStr ''api-v1'') (JBool False) (JStr ''dev-env'') =
     Inr ''my-project-api-v1-dev-env''"
    by code_simp
  show ?thesis
    using v m e
      name_longer_than_128_rejected [of "replicate 50 (CHR ''a'')" "replicate 50 (CHR ''b'')"
        "replicate 50 (CHR ''c'')" sample_runtime "Inr ''main''" "JStr ''my-project''" "JStr ''api-v1''"
        "JStr ''dev-env''" "''my-project-api-v1-dev-env''"]
    by simp
qed


text \<open>
  Claim C9. In deployment mode, for valid \<open>project\<close>, \<open>stackPrefix\<close> and
  \<open>environment\<close> the resolved name is the literal composition, with no sanitization
  (upper case stays); the only other outcome is the name-too-long error of claim C8.
  The spec's example resolves to \<^verbatim>\<open>myapp-api-sb-prod-us-east-1\<close>.
\<close>

theorem deployment_name_is_literal_composition:
  "(validNameRegex p \<and> length p \<le> 50 \<and> validNameRegex s \<and> length s \<le> 50 \<and>
    validNameRegex t \<and> length t \<le> 50 \<longrightarrow>
      generateStackName rt git (JStr p) (JStr s) (JBool False) (JStr t) =
        (if length (p @ ''-'' @ s @ ''-'' @ t) > 128
         then Inl (stack_name_too_long rt (p @ ''-'' @ s @ ''-'' @ t))
         else Inr (p @ ''-'' @ s @ ''-'' @ t))) \<and>
   generateStackName rt git (JStr ''myapp'') (JStr ''api'') (JBool False) (JStr ''sb-prod-us-east-1'') =
     Inr ''myapp-api-sb-prod-us-east-1''"
proof -
  have "validNameRegex ''myapp''" "validNameRegex ''api''" "validNameRegex ''sb-prod-us-east-1''"
    by code_simp+
  then have "generateStackName rt git (JStr ''myapp'') (JStr ''api'') (JBool False) (JStr ''sb-prod-us-east-1'') =
     Inr ''myapp-api-sb-prod-us-east-1''"
    using generateStackName_deploy [of "''myapp''" "''api''" "''sb-prod-us-east-1''" rt git] by simp
  then show ?thesis
    using generateStackName_deploy [of p s t rt git] by simp
qed

theorem deployment_name_witness:
  "validNameRegex ''Web-1'' \<and> length ''Web-1'' \<le> 50 \<and> validNameRegex ''API'' \<and> length ''API'' \<le> 50 \<and>
   validNameRegex ''QA-2'' \<and> length ''QA-2'' \<le> 50 \<and>
   generateStackName sample_runtime (Inr ''main'') (JStr ''Web-1'') (JStr ''API'') (JBool False) (JStr ''QA-2'') =
     Inr ''Web-1-API-QA-2''"
proof -
  have "validNameRegex ''Web-1''" "validNameRegex ''API''" "validNameRegex ''QA-2''"
    by code_simp+
  then show ?thesis
    using deployment_name_is_literal_composition [of "''Web-1''" "''API''" "''QA-2''" sample_runtime "Inr ''main''"]
    by simp
qed

text \<open>
  Claim C10. A branch name (the trimmed output of the lookup) of more than 100 characters
  makes \<^verbatim>\<open>getCurrentBranchName\<close> throw the branch-name-too-long error, and build-mode
  \<^verbatim>\<open>generateStackName\<close> fails with it, whatever the length of the composed name
  would be (105 characters in the evaluation below).
\<close>

theorem branch_name_longer_than_100_rejected:
  "100 < length (trim out) \<longrightarrow>
     getCurrentBranchName rt (Inr out) =
       Inl (Error (''Branch name is too long ('' @ show_length rt (length (trim out)) @
                   '' characters). Maximum supported length is 100 characters.'')) \<and>
     isl (generateStackName rt (Inr out) project stackPrefix (JBool True) environment) \<and>
     (validNameRegex p \<and> length p \<le> 50 \<and> validNameRegex s \<and> length s \<le> 50 \<longrightarrow>
        generateStackName rt (Inr out) (JStr p) (JStr s) (JBool True) environment =
          Inl (Error (''Branch name is too long ('' @ show_length rt (length (trim out)) @
                      '' characters). Maximum supported length is 100 characters.'')))"
proof (intro impI conjI)
  assume long: "100 < length (trim out)"
  show g: "getCurrentBranchName rt (Inr out) =
       Inl (Error (''Branch name is too long ('' @ show_length rt (length (trim out)) @
                   '' characters). Maximum supported length is 100 characters.''))"
    using long by (rule getCurrentBranchName_too_long)
  then show "isl (generateStackName rt (Inr out) project stackPrefix (JBool True) environment)"
    by (intro generateStackName_build_isl) simp
  assume "validNameRegex p \<and> length p \<le> 50 \<and> validNameRegex s \<and> length s \<le> 50"
  then show "generateStackName rt (Inr out) (JStr p) (JStr s) (JBool True) environment =
          Inl (Error (''Branch name is too long ('' @ show_length rt (length (trim out)) @
                      '' characters). Maximum supported length is 100 characters.''))"
    using generateStackName_build [of p s rt "Inr out" environment] g by simp
qed

theorem branch_name_longer_than_100_witness:
  "100 < length (trim (replicate 101 (CHR ''x''))) \<and>
   getCurrentBranchName sample_runtime (Inr (replicate 101 (CHR ''x''))) =
     Inl (Error ''Branch name is too long (101 characters). Maximum supported length is 100 characters.'') \<and>
   isl (generateStackName sample_runtime (Inr (replicate 101 (CHR ''x''))) (JStr ''a'') (JStr ''b'') (JBool True) JUndefined) \<and>
   validNameRegex ''a'' \<and> length ''a'' \<le> 50 \<and> validNameRegex ''b'' \<and> length ''b'' \<le> 50 \<and>
   generateStackName sample_runtime (Inr (replicate 101 (CHR ''x''))) (JStr ''a'') (JStr ''b'') (JBool True) JUndefined =
     Inl (Error ''Branch name is too long (101 characters). Maximum supported length is 100 characters.'') \<and>
   sanitizeBranchName (replicate 101 (CHR ''x'')) = Inr (replicate 101 (CHR ''x'')) \<and>
   length (''a'' @ ''-'' @ ''b'' @ ''-'' @ replicate 101 (CHR ''x'')) \<le> 128"
proof -
  have t: "trim (replicate 101 (CHR ''x'')) = replicate 101 (CHR ''x'')" by code_simp
  have v: "validNameRegex ''a''" "validNameRegex ''b''" by code_simp+
  have m: "show_length sample_runtime 101 = ''101''" by code_simp
  have z: "sanitizeBranchName (replicate 101 (CHR ''x'')) = Inr (replicate 101 (CHR ''x''))" by code_simp
  show ?thesis
    using t v m z
      branch_name_longer_than_100_rejected [of "replicate 101 (CHR ''x'')" sample_runtime
        "JStr ''a''" "JStr ''b''" JUndefined "''a''" "''b''"]
    by simp
qed


lemma lookup_failed_error: "lookup_failed git \<Longrightarrow> \<exists>err. getCurrentBranchName rt git = Inl err"
  using getCurrentBranchName_unable [of _ rt]
  by (cases git) (auto simp: lookup_failed_def getCurrentBranchName_def)

lemma branch_catch_timeout:
  "code e \<noteq> Some ''ENOENT'' \<Longrightarrow> signal e = Some ''SIGTERM'' \<or> killed e \<Longrightarrow>
   branch_catch e = Error ''Git command timed out. The repository may be corrupted or inaccessible.''"
  by (simp add: branch_catch_def)

text \<open>
  Claim C6. In build mode, when the branch lookup throws (a timeout included), returns
  nothing but white space or returns \<^verbatim>\<open>HEAD\<close>, \<^verbatim>\<open>getCurrentBranchName\<close> throws
  and \<^verbatim>\<open>generateStackName\<close> produces no name: for a valid project and prefix it
  fails with that very error. When the branch name sanitizes to the empty string,
  \<^verbatim>\<open>generateStackName\<close> fails as well, with the error of the empty sanitization.
\<close>

theorem build_mode_branch_resolution_failures:
  "(lookup_failed git \<longrightarrow>
      (\<exists>err. getCurrentBranchName rt git = Inl err \<and>
         (validNameRegex p \<and> length p \<le> 50 \<and> validNameRegex s \<and> length s \<le> 50 \<longrightarrow>
            generateStackName rt git (JStr p) (JStr s) (JBool True) environment = Inl err)) \<and>
      isl (generateStackName rt git project stackPrefix (JBool True) environment)) \<and>
   (git = Inr out \<and> (trim out = [] \<or> trim out = ''HEAD'') \<longrightarrow>
      getCurrentBranchName rt git =
        Inl (Error ''Unable to determine current branch name. You may be in a detached HEAD state or the repository may not have any commits.'')) \<and>
   (git = Inl e \<and> code e \<noteq> Some ''ENOENT'' \<and> (signal e = Some ''SIGTERM'' \<or> killed e) \<longrightarrow>
      getCurrentBranchName rt git =
        Inl (Error ''Git command timed out. The repository may be corrupted or inaccessible.'')) \<and>
   (getCurrentBranchName rt git = Inr b \<and> sanitizeBranchName b = Inr [] \<longrightarrow>
      isl (generateStackName rt git project stackPrefix (JBool True) environment) \<and>
      (validNameRegex p \<and> length p \<le> 50 \<and> validNameRegex s \<and> length s \<le> 50 \<longrightarrow>
         generateStackName rt git (JStr p) (JStr s) (JBool True) environment =
           Inl (Error ''Branch name resulted in empty string after sanitization. Please use a branch name with alphanumeric characters.'')))"
proof (intro conjI impI)
  assume f: "lookup_failed git"
  then obtain err where err: "getCurrentBranchName rt git = Inl err"
    using lookup_failed_error by blast
  then show "\<exists>err. getCurrentBranchName rt git = Inl err \<and>
         (validNameRegex p \<and> length p \<le> 50 \<and> validNameRegex s \<and> length s \<le> 50 \<longrightarrow>
            generateStackName rt git (JStr p) (JStr s) (JBool True) environment = Inl err)"
    using generateStackName_build [of p s rt git environment] by auto
  from err show "isl (generateStackName rt git project stackPrefix (JBool True) environment)"
    by (intro generateStackName_build_isl) simp
next
  assume "git = Inr out \<and> (trim out = [] \<or> trim out = ''HEAD'')"
  then show "getCurrentBranchName rt git =
        Inl (Error ''Unable to determine current branch name. You may be in a detached HEAD state or the repository may not have any commits.'')"
    using getCurrentBranchName_unable [of out rt] by simp
next
  assume "git = Inl e \<and> code e \<noteq> Some ''ENOENT'' \<and> (signal e = Some ''SIGTERM'' \<or> killed e)"
  then show "getCurrentBranchName rt git =
        Inl (Error ''Git command timed out. The repository may be corrupted or inaccessible.'')"
    using branch_catch_timeout [of e] by (auto simp: getCurrentBranchName_def)
next
  assume a: "getCurrentBranchName rt git = Inr b \<and> sanitizeBranchName b = Inr []"
  then show "isl (generateStackName rt git project stackPrefix (JBool True) environment)"
    by (auto simp: generateStackName_def)
  assume "validNameRegex p \<and> length p \<le> 50 \<and> validNameRegex s \<and> length s \<le> 50"
  then show "generateStackName rt git (JStr p) (JStr s) (JBool True) environment =
           Inl (Error ''Branch name resulted in empty string after sanitization. Please use a branch name with alphanumeric characters.'')"
    using a generateStackName_build [of p s rt git environment] by simp
qed

theorem build_mode_branch_resolution_witness:
  "lookup_failed (Inr (''HEAD'' @ [CHR 0x0A])) \<and>
   validNameRegex ''myapp'' \<and> length ''myapp'' \<le> 50 \<and> validNameRegex ''api'' \<and> length ''api'' \<le> 50 \<and>
   getCurrentBranchName sample_runtime (Inr (''HEAD'' @ [CHR 0x0A])) =
     Inl (Error ''Unable to determine current branch name. You may be in a detached HEAD state or the repository may not have any commits.'') \<and>
   generateStackName sample_runtime (Inr (''HEAD'' @ [CHR 0x0A])) (JStr ''myapp'') (JStr ''api'') (JBool True) (JStr ''dev'') =
     Inl (Error ''Unable to determine current branch name. You may be in a detached HEAD state or the repository may not have any commits.'') \<and>
   lookup_failed (Inl timeout_error) \<and> code timeout_error \<noteq> Some ''ENOENT'' \<and>
   (signal timeout_error = Some ''SIGTERM'' \<or> killed timeout_error) \<and>
   generateStackName sample_runtime (Inl timeout_error) (JStr ''myapp'') (JStr ''api'') (JBool True) (JStr ''dev'') =
     Inl (Error ''Git command timed out. The repository may be corrupted or inaccessible.'') \<and>
   getCurrentBranchName sample_runtime (Inr ''@@@'') = Inr ''@@@'' \<and> sanitizeBranchName ''@@@'' = Inr [] \<and>
   generateStackName sample_runtime (Inr ''@@@'') (JStr ''myapp'') (JStr ''api'') (JBool True) (JStr ''dev'') =
     Inl (Error ''Branch name resulted in empty string after sanitization. Please use a branch name with alphanumeric characters.'')"
proof -
  have v: "validNameRegex ''myapp''" "validNameRegex ''api''" by code_simp+
  have h: "lookup_failed (Inr (''HEAD'' @ [CHR 0x0A]))" "trim (''HEAD'' @ [CHR 0x0A]) = ''HEAD''"
    by code_simp+
  have t: "lookup_failed (Inl timeout_error)" "code timeout_error \<noteq> Some ''ENOENT''"
    "signal timeout_error = Some ''SIGTERM''"
    by (simp_all add: lookup_failed_def timeout_error_def)
  have a: "getCurrentBranchName sample_runtime (Inr ''@@@'') = Inr ''@@@''"
    "sanitizeBranchName ''@@@'' = Inr []"
    by code_simp+
  note inst = build_mode_branch_resolution_failures [where rt = sample_runtime and p = "''myapp''"
      and s = "''api''" and environment = "JStr ''dev''" and project = "JStr ''myapp''"
      and stackPrefix = "JStr ''api''" and e = timeout_error and b = "''@@@''"]
  have 1: "getCurrentBranchName sample_runtime (Inr (''HEAD'' @ [CHR 0x0A])) =
     Inl (Error ''Unable to determine current branch name. You may be in a detached HEAD state or the repository may not have any commits.'') \<and>
   generateStackName sample_runtime (Inr (''HEAD'' @ [CHR 0x0A])) (JStr ''myapp'') (JStr ''api'') (JBool True) (JStr ''dev'') =
     Inl (Error ''Unable to determine current branch name. You may be in a detached HEAD state or the repository may not have any commits.'')"
    using v h inst [where git = "Inr (''HEAD'' @ [CHR 0x0A])" and out = "''HEAD'' @ [CHR 0x0A]"]
    by auto
  have 2: "generateStackName sample_runtime (Inl timeout_error) (JStr ''myapp'') (JStr ''api'') (JBool True) (JStr ''dev'') =
     Inl (Error ''Git command timed out. The repository may be corrupted or inaccessible.'')"
    using v t inst [where git = "Inl timeout_error" and out = "''@@@''"]
    by auto
  have 3: "generateStackName sample_runtime (Inr ''@@@'') (JStr ''myapp'') (JStr ''api'') (JBool True) (JStr ''dev'') =
     Inl (Error ''Branch name resulted in empty string after sanitization. Please use a branch name with alphanumeric characters.'')"
    using v a inst [where git = "Inr ''@@@''" and out = "''@@@''"]
    by auto
  show ?thesis
    using v h t a 1 2 3 by simp
qed

section \<open>Properties of the parameter merger\<close>

lemma map_of_fold_update:
  "map_of (fold (\<lambda>key t. AList.update key (g key) t) ks t) k =
     (if k \<in> set ks then Some (g k) else map_of t k)"
  by (induction ks arbitrary: t) (auto simp: update_conv')

lemma map_of_spread:
  "map_of (spread target source) k =
     (case map_of source k of Some v \<Rightarrow> Some v | None \<Rightarrow> map_of target k)"
proof (cases "map_of source k")
  case None
  then have "k \<notin> set (map fst source)" by (simp add: map_of_eq_None_iff)
  with None show ?thesis by (simp add: spread_def map_of_fold_update)
next
  case (Some v)
  then have "k \<in> set (map fst source)" by (metis map_of_eq_None_iff option.distinct(1) set_map)
  with Some show ?thesis by (simp add: spread_def map_of_fold_update get_prop_def)
qed

lemma map_of_spread_empty: "map_of (spread [] base) = map_of base"
  by (rule ext) (simp add: map_of_spread split: option.splits)

lemma fold_update_fresh:
  "distinct ks \<Longrightarrow> set ks \<inter> fst ` set t = {} \<Longrightarrow>
   fold (\<lambda>key t. AList.update key (g key) t) ks t = t @ map (\<lambda>key. (key, g key)) ks"
proof (induction ks arbitrary: t)
  case Nil
  then show ?case by simp
next
  case (Cons k ks)
  from Cons.prems have "k \<notin> fst ` set t" by auto
  then have u: "AList.update k (g k) t = t @ [(k, g k)]"
    by (induction t) auto
  from Cons.prems have "set ks \<inter> fst ` set (t @ [(k, g k)]) = {}" by auto
  with Cons.IH [of "t @ [(k, g k)]"] Cons.prems u show ?case by simp
qed

lemma spread_empty_distinct: "distinct (map fst base) \<Longrightarrow> spread [] base = base"
proof -
  assume d: "distinct (map fst base)"
  have "\<And>p. p \<in> set base \<Longrightarrow> (fst p, get_prop base (fst p)) = p"
  proof -
    fix p assume "p \<in> set base"
    then have "(fst p, snd p) \<in> set base" by simp
    then have "map_of base (fst p) = Some (snd p)"
      using d by (simp only: map_of_eq_Some_iff)
    then show "(fst p, get_prop base (fst p)) = p" by (simp add: get_prop_def)
  qed
  then have "map (\<lambda>key. (key, get_prop base key)) (map fst base) = base"
    by (simp add: map_idI)
  with d show ?thesis
    using fold_update_fresh [of "map fst base" "[]" "get_prop base"] by (simp add: spread_def)
qed

lemma mergeParameters_absent:
  "absent = JNull \<or> absent = JUndefined \<Longrightarrow>
   mergeParameters rt (JObject base) absent = Inr (JObject (spread [] base))"
  by (auto simp: mergeParameters_def)

lemma mergeParameters_present:
  "mergeParameters rt (JObject base) (JObject override) =
     (case validateParameterObject rt (JObject base) ''default'' of
        Some e \<Rightarrow> Inl (merge_catch e)
      | None \<Rightarrow>
          (case validateParameterObject rt (JObject override) ''environment'' of
             Some e \<Rightarrow> Inl (merge_catch e)
           | None \<Rightarrow> Inr (JObject (spread (spread [] base) override))))"
  by (simp add: mergeParameters_def split: option.splits)

text \<open>
  Claim C1. Whenever \<^verbatim>\<open>mergeParameters\<close> returns a map for a base and a present
  override, every key of the override has the override's value in it (whatever the value:
  \<^verbatim>\<open>0\<close>, \<^verbatim>\<open>false\<close> and the empty string included), and every other key has what the
  base has; it returns that map whenever both inputs pass the validation. With an absent
  override (\<^verbatim>\<open>null\<close> or \<^verbatim>\<open>undefined\<close>) it returns, for every base map, a map with the
  entries of the base (the same list when the keys are distinct, as in every object), held
  in a new heap cell: the reference differs from the caller's and the caller's object is
  unchanged.
\<close>

theorem mergeParameters_override_wins:
  "(mergeParameters rt (JObject base) (JObject override) = Inr merged \<longrightarrow>
      (\<forall>k. map_of (props_of merged) k =
            (case map_of override k of Some v \<Rightarrow> Some v | None \<Rightarrow> map_of base k))) \<and>
   (validateParameterObject rt (JObject base) ''default'' = None \<and>
    validateParameterObject rt (JObject override) ''environment'' = None \<longrightarrow>
      mergeParameters rt (JObject base) (JObject override) =
        Inr (JObject (spread (spread [] base) override))) \<and>
   (absent = JNull \<or> absent = JUndefined \<longrightarrow>
      mergeParameters rt (JObject base) absent = Inr (JObject (spread [] base)) \<and>
      map_of (spread [] base) = map_of base \<and>
      (distinct (map fst base) \<longrightarrow> spread [] base = base) \<and>
      (a < length h \<and> h ! a = JObject base \<longrightarrow>
         mergeParameters_heap rt h (Ref a) (Prim absent) =
           (Inr (Ref (length h)), h @ [JObject (spread [] base)]) \<and>
         Ref (length h) \<noteq> Ref a \<and>
         (h @ [JObject (spread [] base)]) ! a = JObject base))"
proof (intro conjI impI allI)
  fix k
  assume "mergeParameters rt (JObject base) (JObject override) = Inr merged"
  then have "merged = JObject (spread (spread [] base) override)"
    by (auto simp: mergeParameters_present split: option.splits)
  then show "map_of (props_of merged) k =
            (case map_of override k of Some v \<Rightarrow> Some v | None \<Rightarrow> map_of base k)"
    by (simp add: map_of_spread split: option.splits)
next
  assume "validateParameterObject rt (JObject base) ''default'' = None \<and>
    validateParameterObject rt (JObject override) ''environment'' = None"
  then show "mergeParameters rt (JObject base) (JObject override) =
        Inr (JObject (spread (spread [] base) override))"
    by (simp add: mergeParameters_present)
next
  assume abs: "absent = JNull \<or> absent = JUndefined"
  then show m: "mergeParameters rt (JObject base) absent = Inr (JObject (spread [] base))"
    by (rule mergeParameters_absent)
  show "map_of (spread [] base) = map_of base" by (rule map_of_spread_empty)
  {
    assume "distinct (map fst base)"
    then show "spread [] base = base" by (rule spread_empty_distinct)
  }
  {
    assume h: "a < length h \<and> h ! a = JObject base"
    then show "mergeParameters_heap rt h (Ref a) (Prim absent) =
           (Inr (Ref (length h)), h @ [JObject (spread [] base)])"
      using m by (simp add: mergeParameters_heap_def deref_def)
    from h show "Ref (length h) \<noteq> Ref a" by simp
    from h show "(h @ [JObject (spread [] base)]) ! a = JObject base"
      by (simp add: nth_append)
  }
qed


theorem mergeParameters_override_wins_witness:
  "mergeParameters sample_runtime (JObject sample_base) (JObject sample_override) =
     Inr (JObject [(''a'', JNum (Finite 0)), (''b'', JStr ''y''), (''c'', JBool False), (''d'', JStr [])]) \<and>
   map_of (props_of (JObject [(''a'', JNum (Finite 0)), (''b'', JStr ''y''), (''c'', JBool False), (''d'', JStr [])])) ''a'' =
     (case map_of sample_override ''a'' of Some v \<Rightarrow> Some v | None \<Rightarrow> map_of sample_base ''a'') \<and>
   validateParameterObject sample_runtime (JObject sample_base) ''default'' = None \<and>
   validateParameterObject sample_runtime (JObject sample_override) ''environment'' = None \<and>
   mergeParameters sample_runtime (JObject sample_base) JNull = Inr (JObject sample_base) \<and>
   distinct (map fst sample_base) \<and>
   (0::nat) < length [JObject sample_base] \<and> [JObject sample_base] ! 0 = JObject sample_base \<and>
   mergeParameters_heap sample_runtime [JObject sample_base] (Ref 0) (Prim JNull) =
     (Inr (Ref 1), [JObject sample_base, JObject sample_base])"
proof -
  have m: "mergeParameters sample_runtime (JObject sample_base) (JObject sample_override) =
     Inr (JObject [(''a'', JNum (Finite 0)), (''b'', JStr ''y''), (''c'', JBool False), (''d'', JStr [])])"
    by code_simp
  have v: "validateParameterObject sample_runtime (JObject sample_base) ''default'' = None"
    "validateParameterObject sample_runtime (JObject sample_override) ''environment'' = None"
    by code_simp+
  have d: "distinct (map fst sample_base)" by (simp add: sample_base_def)
  note inst = mergeParameters_override_wins [of sample_runtime sample_base sample_override
      "JObject [(''a'', JNum (Finite 0)), (''b'', JStr ''y''), (''c'', JBool False), (''d'', JStr [])]"
      JNull 0 "[JObject sample_base]"]
  from inst m have "map_of (props_of (JObject [(''a'', JNum (Finite 0)), (''b'', JStr ''y''), (''c'', JBool False), (''d'', JStr [])])) ''a'' =
     (case map_of sample_override ''a'' of Some v \<Rightarrow> Some v | None \<Rightarrow> map_of sample_base ''a'')"
    by blast
  moreover from inst d have "mergeParameters sample_runtime (JObject sample_base) JNull = Inr (JObject sample_base)"
    by simp
  moreover from inst d have "mergeParameters_heap sample_runtime [JObject sample_base] (Ref 0) (Prim JNull) =
     (Inr (Ref 1), [JObject sample_base, JObject sample_base])"
    by simp
  ultimately show ?thesis using m v d by simp
qed

text \<open>
  Claim C3 at a failing input. The base \<^verbatim>\<open>{"Invalid-Name": "x"}\<close> does not pass
  \<^verbatim>\<open>validateParameterObject\<close>, and \<^verbatim>\<open>mergeParameters\<close> throws on it when the override is
  an object; with the override \<^verbatim>\<open>null\<close> or \<^verbatim>\<open>undefined\<close> the function returns before
  it validates, and the invalid base comes back as the result. The same holds for a base
  with a \<^verbatim>\<open>null\<close> value.
\<close>

theorem mergeParameters_absent_override_skips_validation:
  "validateParameterObject rt (JObject [(''Invalid-Name'', JStr ''x'')]) ''default'' =
     Some (Error (''default parameter name '' @ [CHR 0x27] @ ''Invalid-Name'' @ [CHR 0x27] @
       '' contains invalid characters. Parameter names must start with a letter and contain only alphanumeric characters.'')) \<and>
   mergeParameters rt (JObject [(''Invalid-Name'', JStr ''x'')]) (JObject []) =
     Inl (Error (''Failed to merge parameters: default parameter name '' @ [CHR 0x27] @ ''Invalid-Name'' @ [CHR 0x27] @
       '' contains invalid characters. Parameter names must start with a letter and contain only alphanumeric characters.'')) \<and>
   mergeParameters rt (JObject [(''Invalid-Name'', JStr ''x'')]) JNull =
     Inr (JObject [(''Invalid-Name'', JStr ''x'')]) \<and>
   mergeParameters rt (JObject [(''Invalid-Name'', JStr ''x'')]) JUndefined =
     Inr (JObject [(''Invalid-Name'', JStr ''x'')]) \<and>
   validateParameterObject rt (JObject [(''A'', JNull)]) ''default'' =
     Some (Error (''default parameter '' @ [CHR 0x27] @ ''A'' @ [CHR 0x27] @ '' has null or undefined value'')) \<and>
   mergeParameters rt (JObject [(''A'', JNull)]) JNull = Inr (JObject [(''A'', JNull)])"
  by code_simp

theorem mergeParameters_absent_override_witness:
  "validateParameterObject sample_runtime (JObject [(''Invalid-Name'', JStr ''x'')]) ''default'' \<noteq> None \<and>
   isl (mergeParameters sample_runtime (JObject [(''Invalid-Name'', JStr ''x'')]) (JObject [])) \<and>
   mergeParameters sample_runtime (JObject [(''Invalid-Name'', JStr ''x'')]) JNull =
     Inr (JObject [(''Invalid-Name'', JStr ''x'')])"
  using mergeParameters_absent_override_skips_validation [of sample_runtime] by simp

text \<open>A map of identifier keys with short string values passes the parameter rules.\<close>

lemma alpha_not_space: "is_alpha c \<Longrightarrow> \<not> is_space c"
  by (auto simp: is_alpha_def is_space_def is_lower_def is_upper_def)

lemma parameter_name_not_blank: "parameterNameRegex key \<Longrightarrow> key \<noteq> [] \<and> trim key \<noteq> []"
  by (cases key) (auto simp: parameterNameRegex_def trim_empty_iff alpha_not_space)

lemma validateParameterKeys_accepts:
  assumes "\<forall>key\<in>set keys. length key \<le> 255 \<and> parameterNameRegex key \<and>
      get_prop params key \<noteq> JNull \<and> get_prop params key \<noteq> JUndefined \<and>
      length (stringValue rt (get_prop params key)) \<le> 4096"
  shows "validateParameterKeys rt type params keys = None"
  using assms
proof (induction keys)
  case Nil
  then show ?case by simp
next
  case (Cons key keys)
  then have "parameterNameRegex key" by simp
  then have "key \<noteq> []" "trim key \<noteq> []"
    using parameter_name_not_blank by blast+
  with Cons show ?case by (simp add: Let_def)
qed

lemma fifty_one_tags_valid: "validateParameterObject rt (JObject fifty_one_tags) ''default'' = None"
proof -
  have len: "length fifty_one_tags = 51" by (simp add: fifty_one_tags_def)
  have "validateParameterKeys rt ''default'' fifty_one_tags (map fst fifty_one_tags) = None"
  proof (rule validateParameterKeys_accepts, rule ballI)
    fix key assume "key \<in> set (map fst fifty_one_tags)"
    then obtain n where n: "n < 51" "key = ''T'' @ replicate n (CHR ''a'')"
      by (auto simp: fifty_one_tags_def)
    have "is_alpha (CHR ''T'')" "is_alnum (CHR ''a'')"
      by (simp_all add: is_alpha_def is_alnum_def is_upper_def is_lower_def)
    then have re: "parameterNameRegex key"
      using n by (simp add: parameterNameRegex_def list_all_iff)
    have "(key, JStr ''v'') \<in> set fifty_one_tags"
      using n by (auto simp: fifty_one_tags_def)
    moreover have "\<And>v. (key, v) \<in> set fifty_one_tags \<Longrightarrow> v = JStr ''v''"
      by (auto simp: fifty_one_tags_def)
    ultimately have "map_of fifty_one_tags key = Some (JStr ''v'')"
      by (metis map_of_SomeD weak_map_of_SomeI)
    then have "get_prop fifty_one_tags key = JStr ''v''" by (simp add: get_prop_def)
    with re n show "length key \<le> 255 \<and> parameterNameRegex key \<and>
      get_prop fifty_one_tags key \<noteq> JNull \<and> get_prop fifty_one_tags key \<noteq> JUndefined \<and>
      length (stringValue rt (get_prop fifty_one_tags key)) \<le> 4096"
      by (simp add: stringValue_def)
  qed
  with len show ?thesis by (simp add: validateParameterObject_def)
qed

lemma fifty_one_tags_distinct: "distinct (map fst fifty_one_tags)"
proof -
  have "inj_on (\<lambda>n. ''T'' @ replicate n (CHR ''a'')) {0..<51}"
    by (rule inj_onI) (metis length_replicate same_append_eq)
  then show ?thesis
    by (simp add: fifty_one_tags_def comp_def distinct_map)
qed

text \<open>
  Claim C4 at a failing input. The action merges the tag maps with \<^verbatim>\<open>mergeParameters\<close>,
  which validates with \<^verbatim>\<open>validateParameterObject\<close>: the tag key \<^verbatim>\<open>Cost-Center\<close>, which
  \<^verbatim>\<open>validateTagsObject\<close> accepts, makes the merge throw, and a map of 51 tags, which
  \<^verbatim>\<open>validateTagsObject\<close> rejects, is merged.
\<close>

theorem mergeParameters_applies_parameter_rules_to_tags:
  "validateTagsObject rt (JObject [(''Cost-Center'', JStr ''1234'')]) ''default'' = None \<and>
   validateTagsObject rt (JObject [(''Team'', JStr ''core'')]) ''environment'' = None \<and>
   mergeParameters rt (JObject [(''Cost-Center'', JStr ''1234'')]) (JObject [(''Team'', JStr ''core'')]) =
     Inl (Error (''Failed to merge parameters: default parameter name '' @ [CHR 0x27] @ ''Cost-Center'' @ [CHR 0x27] @
       '' contains invalid characters. Parameter names must start with a letter and contain only alphanumeric characters.'')) \<and>
   validateTagsObject rt (JObject fifty_one_tags) ''default'' =
     Some (Error (''Too many default tags ('' @ show_length rt 51 @ ''). Maximum supported is 50 tags.'')) \<and>
   mergeParameters rt (JObject fifty_one_tags) (JObject []) = Inr (JObject fifty_one_tags)"
proof -
  have "validateTagsObject rt (JObject [(''Cost-Center'', JStr ''1234'')]) ''default'' = None"
    "validateTagsObject rt (JObject [(''Team'', JStr ''core'')]) ''environment'' = None"
    "mergeParameters rt (JObject [(''Cost-Center'', JStr ''1234'')]) (JObject [(''Team'', JStr ''core'')]) =
     Inl (Error (''Failed to merge parameters: default parameter name '' @ [CHR 0x27] @ ''Cost-Center'' @ [CHR 0x27] @
       '' contains invalid characters. Parameter names must start with a letter and contain only alphanumeric characters.''))"
    by code_simp+
  moreover have "length fifty_one_tags = 51" by (simp add: fifty_one_tags_def)
  then have "validateTagsObject rt (JObject fifty_one_tags) ''default'' =
     Some (Error (''Too many default tags ('' @ show_length rt 51 @ ''). Maximum supported is 50 tags.''))"
    by (simp add: validateTagsObject_def)
  moreover have "validateParameterObject rt (JObject []) ''environment'' = None"
    by (simp add: validateParameterObject_def)
  then have "mergeParameters rt (JObject fifty_one_tags) (JObject []) = Inr (JObject fifty_one_tags)"
    using fifty_one_tags_valid [of rt] spread_empty_distinct [OF fifty_one_tags_distinct]
    by (simp add: mergeParameters_present spread_def)
  ultimately show ?thesis by simp
qed

theorem mergeParameters_tag_rules_witness:
  "validateTagsObject sample_runtime (JObject [(''Cost-Center'', JStr ''1234'')]) ''default'' = None \<and>
   isl (mergeParameters sample_runtime (JObject [(''Cost-Center'', JStr ''1234'')])
          (JObject [(''Team'', JStr ''core'')])) \<and>
   validateTagsObject sample_runtime (JObject fifty_one_tags) ''default'' \<noteq> None \<and>
   mergeParameters sample_runtime (JObject fifty_one_tags) (JObject []) = Inr (JObject fifty_one_tags)"
  using mergeParameters_applies_parameter_rules_to_tags [of sample_runtime] by simp

section \<open>Properties of the configuration reader\<close>

lemma code_Error: "code (Error m) = None" "message (Error m) = m"
  by (simp_all add: Error_def)

lemma rethrows_invalid_json: "reader_rethrows (Error (''Invalid JSON format'' @ q))"
  using includes_str_prefix [of "''Invalid JSON format''" q]
  by (simp add: reader_rethrows_def code_Error)

lemma rethrows_is_empty: "reader_rethrows (Error (p @ ''is empty'' @ q))"
  using includes_str_append [of p "''is empty''" q]
  by (simp add: reader_rethrows_def code_Error)

lemma rethrows_not_object: "reader_rethrows (Error (p @ ''must be a JSON object'' @ q))"
  using includes_str_append [of p "''must be a JSON object''" q]
  by (simp add: reader_rethrows_def code_Error)

lemma default_tags_catch_rethrow:
  "reader_rethrows (Error m) \<Longrightarrow> default_tags_catch path (Error m) = Inl (Error m)"
  by (simp add: default_tags_catch_def code_Error)

lemma default_tags_catch_isl: "code e \<noteq> Some ''ENOENT'' \<Longrightarrow> isl (default_tags_catch path e)"
  by (simp add: default_tags_catch_def)

lemma default_params_catch_isl: "isl (default_params_catch path e)"
  by (simp add: default_params_catch_def)

lemma tags_empty_message:
  "default_tags_catch path (Error (''Default tags file is empty: '' @ path' @ q)) =
     Inl (Error (''Default tags file is empty: '' @ path' @ q))"
  using rethrows_is_empty [of "''Default tags file ''" "'': '' @ path' @ q"]
  by (intro default_tags_catch_rethrow) simp

lemma tags_invalid_json_message:
  "default_tags_catch path (Error (''Invalid JSON format in default.json at '' @ q)) =
     Inl (Error (''Invalid JSON format in default.json at '' @ q))"
  using rethrows_invalid_json [of "'' in default.json at '' @ q"]
  by (intro default_tags_catch_rethrow) simp

lemma tags_not_object_message:
  "default_tags_catch path (Error (''Default tags must be a JSON object, got '' @ q)) =
     Inl (Error (''Default tags must be a JSON object, got '' @ q))"
  using rethrows_not_object [of "''Default tags ''" "'', got '' @ q"]
  by (intro default_tags_catch_rethrow) simp

text \<open>The two try blocks on the same node: the same value, or errors with the same code.\<close>

lemma try_blocks_agree:
  assumes "fs tp = node" "fs pp = node"
  shows "(\<exists>v. default_tags_try rt fs tp = Inr v \<and> default_params_try rt fs pp = Inr v) \<or>
         (\<exists>e e'. default_tags_try rt fs tp = Inl e \<and> default_params_try rt fs pp = Inl e' \<and> code e = code e')"
  using assms
  by (auto simp: default_tags_try_def default_params_try_def code_Error
      split: fs_node.splits sum.splits)

lemma try_error_code:
  "default_tags_try rt fs tp = Inl e \<Longrightarrow> code e = Some ''ENOENT'' \<longleftrightarrow> node_missing (fs tp)"
  by (auto simp: default_tags_try_def node_missing_def code_Error split: fs_node.splits sum.splits if_splits)

lemma readDefaultTags_unfold:
  "f \<noteq> [] \<Longrightarrow> readDefaultTags rt fs (JStr f) =
     (case default_tags_try rt fs (path_join rt [f, ''tags'', ''default.json'']) of
        Inl error \<Rightarrow> default_tags_catch (path_join rt [f, ''tags'', ''default.json'']) error
      | Inr tags \<Rightarrow> Inr tags)"
  by (simp add: readDefaultTags_def Let_def)

lemma readDefaultParameters_unfold:
  "f \<noteq> [] \<Longrightarrow> readDefaultParameters rt fs (JStr f) =
     (case default_params_try rt fs (path_join rt [f, ''params'', ''default.json'']) of
        Inl error \<Rightarrow> default_params_catch (path_join rt [f, ''params'', ''default.json'']) error
      | Inr params \<Rightarrow> Inr params)"
  by (simp add: readDefaultParameters_def Let_def)

lemma readDefaultTags_missing:
  "f \<noteq> [] \<Longrightarrow> node_missing (fs (path_join rt [f, ''tags'', ''default.json''])) \<Longrightarrow>
   readDefaultTags rt fs (JStr f) = Inr (JObject [])"
  by (auto simp: readDefaultTags_unfold default_tags_try_def default_tags_catch_def node_missing_def
      split: fs_node.splits sum.splits)

lemma readDefaultParameters_isl_error:
  "f \<noteq> [] \<Longrightarrow> isl (default_params_try rt fs (path_join rt [f, ''params'', ''default.json''])) \<Longrightarrow>
   isl (readDefaultParameters rt fs (JStr f))"
  by (auto simp: readDefaultParameters_unfold default_params_catch_isl split: sum.splits)

lemma readers_agree:
  assumes f: "f \<noteq> []"
    and tp: "tp = path_join rt [f, ''tags'', ''default.json'']"
    and pp: "pp = path_join rt [f, ''params'', ''default.json'']"
    and same: "fs pp = fs tp" and present: "\<not> node_missing (fs tp)"
  shows "(isl (readDefaultTags rt fs (JStr f)) \<longleftrightarrow> isl (readDefaultParameters rt fs (JStr f))) \<and>
         (\<forall>v. readDefaultTags rt fs (JStr f) = Inr v \<longleftrightarrow> readDefaultParameters rt fs (JStr f) = Inr v)"
proof -
  consider (val) v where "default_tags_try rt fs tp = Inr v" "default_params_try rt fs pp = Inr v"
    | (err) e e' where "default_tags_try rt fs tp = Inl e" "default_params_try rt fs pp = Inl e'"
        "code e = code e'"
    using try_blocks_agree [of fs tp "fs tp" pp rt] same by auto
  then show ?thesis
  proof cases
    case val
    then show ?thesis
      using f by (simp add: readDefaultTags_unfold readDefaultParameters_unfold tp [symmetric] pp [symmetric])
  next
    case err
    then have "code e \<noteq> Some ''ENOENT''"
      using try_error_code [of rt fs tp e] present by simp
    then have "isl (default_tags_catch tp e)" by (rule default_tags_catch_isl)
    moreover have "isl (default_params_catch pp e')" by (rule default_params_catch_isl)
    ultimately show ?thesis
      using f err
      by (auto simp: readDefaultTags_unfold readDefaultParameters_unfold tp [symmetric] pp [symmetric])
  qed
qed

text \<open>
  Claim C5, as the code has it. For a folder path that is a non-empty string: when the
  default tags file is absent, \<^verbatim>\<open>readDefaultTags\<close> succeeds with the empty map, where
  \<^verbatim>\<open>readDefaultParameters\<close> fails with its not-found error. On every other answer of the
  file system the two readers agree (both fail, or both return the same value):
  \<^verbatim>\<open>readDefaultTags\<close> fails when \<^verbatim>\<open>stat\<close> throws, when the path is not a file, when
  the content is blank, when it does not parse and when it parses to something that is not
  an object; it returns every object as parsed, the empty object included, with no check
  of fields.
\<close>

theorem readDefaultTags_taxonomy:
  assumes f: "f \<noteq> []"
    and tp: "tp = path_join rt [f, ''tags'', ''default.json'']"
    and pp: "pp = path_join rt [f, ''params'', ''default.json'']"
  shows
   "(node_missing (fs tp) \<longrightarrow> readDefaultTags rt fs (JStr f) = Inr (JObject [])) \<and>
    (node_missing (fs pp) \<longrightarrow> isl (readDefaultParameters rt fs (JStr f))) \<and>
    (fs pp = StatFails e \<and> code e = Some ''ENOENT'' \<longrightarrow>
       readDefaultParameters rt fs (JStr f) =
         Inl (Error (''Default parameters file not found: '' @ pp @
                     ''. Please ensure the file exists in the params subdirectory.''))) \<and>
    (\<not> node_missing (fs tp) \<and> fs pp = fs tp \<longrightarrow>
       (isl (readDefaultTags rt fs (JStr f)) \<longleftrightarrow> isl (readDefaultParameters rt fs (JStr f))) \<and>
       (\<forall>v. readDefaultTags rt fs (JStr f) = Inr v \<longleftrightarrow> readDefaultParameters rt fs (JStr f) = Inr v)) \<and>
    (fs tp = StatFails e \<and> code e \<noteq> Some ''ENOENT'' \<longrightarrow> isl (readDefaultTags rt fs (JStr f))) \<and>
    (fs tp = NotAFile \<longrightarrow> isl (readDefaultTags rt fs (JStr f))) \<and>
    (fs tp = File (Inr content) \<and> trim content = [] \<longrightarrow>
       readDefaultTags rt fs (JStr f) =
         Inl (Error (''Default tags file is empty: '' @ tp @
                     ''. Expected at least an empty JSON object {}.''))) \<and>
    (fs tp = File (Inr content) \<and> trim content \<noteq> [] \<and> JSON_parse rt content = Inl msg \<longrightarrow>
       readDefaultTags rt fs (JStr f) =
         Inl (Error (''Invalid JSON format in default.json at '' @ tp @ '': '' @ msg @
                     ''. Please check the JSON syntax.''))) \<and>
    (fs tp = File (Inr content) \<and> trim content \<noteq> [] \<and> JSON_parse rt content = Inr v \<and>
     not_json_object v \<longrightarrow>
       readDefaultTags rt fs (JStr f) =
         Inl (Error (''Default tags must be a JSON object, got '' @ typeof v))) \<and>
    (fs tp = File (Inr content) \<and> trim content \<noteq> [] \<and> JSON_parse rt content = Inr (JObject ps) \<longrightarrow>
       readDefaultTags rt fs (JStr f) = Inr (JObject ps))"
proof (intro conjI impI)
  assume "node_missing (fs tp)"
  then show "readDefaultTags rt fs (JStr f) = Inr (JObject [])"
    using f readDefaultTags_missing [of f fs rt] by (simp add: tp)
next
  assume "node_missing (fs pp)"
  then have "isl (default_params_try rt fs pp)"
    by (auto simp: default_params_try_def node_missing_def split: fs_node.splits sum.splits)
  then show "isl (readDefaultParameters rt fs (JStr f))"
    using f readDefaultParameters_isl_error [of f rt fs] by (simp add: pp)
next
  assume "fs pp = StatFails e \<and> code e = Some ''ENOENT''"
  then show "readDefaultParameters rt fs (JStr f) =
         Inl (Error (''Default parameters file not found: '' @ pp @
                     ''. Please ensure the file exists in the params subdirectory.''))"
    using f by (simp add: readDefaultParameters_unfold pp [symmetric] default_params_try_def
        default_params_catch_def)
next
  assume a: "\<not> node_missing (fs tp) \<and> fs pp = fs tp"
  with readers_agree [OF f tp pp]
  show "isl (readDefaultTags rt fs (JStr f)) \<longleftrightarrow> isl (readDefaultParameters rt fs (JStr f))"
    by blast
  from a readers_agree [OF f tp pp]
  show "\<forall>v. readDefaultTags rt fs (JStr f) = Inr v \<longleftrightarrow> readDefaultParameters rt fs (JStr f) = Inr v"
    by blast
next
  assume "fs tp = StatFails e \<and> code e \<noteq> Some ''ENOENT''"
  then show "isl (readDefaultTags rt fs (JStr f))"
    using f default_tags_catch_isl [of e tp]
    by (simp add: readDefaultTags_unfold tp [symmetric] default_tags_try_def)
next
  assume "fs tp = NotAFile"
  then show "isl (readDefaultTags rt fs (JStr f))"
    using f default_tags_catch_isl [of "Error (''Default tags path exists but is not a file: '' @ tp)" tp]
    by (simp add: readDefaultTags_unfold tp [symmetric] default_tags_try_def code_Error)
next
  assume "fs tp = File (Inr content) \<and> trim content = []"
  then show "readDefaultTags rt fs (JStr f) =
         Inl (Error (''Default tags file is empty: '' @ tp @
                     ''. Expected at least an empty JSON object {}.''))"
    using f tags_empty_message [of tp tp "''. Expected at least an empty JSON object {}.''"]
    by (simp add: readDefaultTags_unfold tp [symmetric] default_tags_try_def)
next
  assume "fs tp = File (Inr content) \<and> trim content \<noteq> [] \<and> JSON_parse rt content = Inl msg"
  then show "readDefaultTags rt fs (JStr f) =
         Inl (Error (''Invalid JSON format in default.json at '' @ tp @ '': '' @ msg @
                     ''. Please check the JSON syntax.''))"
    using f tags_invalid_json_message [of tp "tp @ '': '' @ msg @ ''. Please check the JSON syntax.''"]
    by (simp add: readDefaultTags_unfold tp [symmetric] default_tags_try_def)
next
  assume "fs tp = File (Inr content) \<and> trim content \<noteq> [] \<and> JSON_parse rt content = Inr v \<and>
     not_json_object v"
  then show "readDefaultTags rt fs (JStr f) =
         Inl (Error (''Default tags must be a JSON object, got '' @ typeof v))"
    using f tags_not_object_message [of tp "typeof v"]
    by (simp add: readDefaultTags_unfold tp [symmetric] default_tags_try_def)
next
  assume "fs tp = File (Inr content) \<and> trim content \<noteq> [] \<and> JSON_parse rt content = Inr (JObject ps)"
  then show "readDefaultTags rt fs (JStr f) = Inr (JObject ps)"
    using f by (simp add: readDefaultTags_unfold tp [symmetric] default_tags_try_def not_json_object_def)
qed

text \<open>
  The claim as stated fails where the tags file is absent: the result is the empty map,
  not an error.
\<close>

theorem readDefaultTags_missing_file_counterexample:
  "readDefaultTags sample_runtime (\<lambda>path. StatFails enoent_error) (JStr ''cfn'') = Inr (JObject []) \<and>
   readDefaultParameters sample_runtime (\<lambda>path. StatFails enoent_error) (JStr ''cfn'') =
     Inl (Error ''Default parameters file not found: cfn/params/default.json. Please ensure the file exists in the params subdirectory.'')"
  by code_simp


theorem readDefaultTags_taxonomy_witness:
  "''cfn'' \<noteq> [] \<and>
   ''cfn/tags/default.json'' = path_join sample_runtime [''cfn'', ''tags'', ''default.json''] \<and>
   ''cfn/params/default.json'' = path_join sample_runtime [''cfn'', ''params'', ''default.json''] \<and>
   node_missing (StatFails enoent_error) \<and>
   readDefaultTags sample_runtime (\<lambda>path. StatFails enoent_error) (JStr ''cfn'') = Inr (JObject []) \<and>
   isl (readDefaultParameters sample_runtime (\<lambda>path. StatFails enoent_error) (JStr ''cfn'')) \<and>
   code eacces_error \<noteq> Some ''ENOENT'' \<and>
   isl (readDefaultTags sample_runtime (\<lambda>path. StatFails eacces_error) (JStr ''cfn'')) \<and>
   isl (readDefaultTags sample_runtime (\<lambda>path. NotAFile) (JStr ''cfn'')) \<and>
   trim ''  '' = [] \<and>
   readDefaultTags sample_runtime (\<lambda>path. File (Inr ''  '')) (JStr ''cfn'') =
     Inl (Error ''Default tags file is empty: cfn/tags/default.json. Expected at least an empty JSON object {}.'') \<and>
   trim ''{'' \<noteq> [] \<and> JSON_parse sample_runtime ''{'' = Inl ''Unexpected token'' \<and>
   readDefaultTags sample_runtime (\<lambda>path. File (Inr ''{'')) (JStr ''cfn'') =
     Inl (Error ''Invalid JSON format in default.json at cfn/tags/default.json: Unexpected token. Please check the JSON syntax.'') \<and>
   trim ''[]'' \<noteq> [] \<and> JSON_parse sample_runtime ''[]'' = Inr (JArray []) \<and> not_json_object (JArray []) \<and>
   readDefaultTags sample_runtime (\<lambda>path. File (Inr ''[]'')) (JStr ''cfn'') =
     Inl (Error ''Default tags must be a JSON object, got object'') \<and>
   trim ''{}'' \<noteq> [] \<and> JSON_parse sample_runtime ''{}'' = Inr (JObject []) \<and>
   \<not> node_missing (File (Inr ''{}'')) \<and>
   readDefaultTags sample_runtime (\<lambda>path. File (Inr ''{}'')) (JStr ''cfn'') = Inr (JObject []) \<and>
   readDefaultParameters sample_runtime (\<lambda>path. File (Inr ''{}'')) (JStr ''cfn'') = Inr (JObject [])"
proof -
  have f: "''cfn'' \<noteq> []" by simp
  have tp: "''cfn/tags/default.json'' = path_join sample_runtime [''cfn'', ''tags'', ''default.json'']"
    and pp: "''cfn/params/default.json'' = path_join sample_runtime [''cfn'', ''params'', ''default.json'']"
    by (simp_all add: sample_runtime_def)
  note inst = readDefaultTags_taxonomy [OF f tp pp]
  have h: "node_missing (StatFails enoent_error)" "code eacces_error \<noteq> Some ''ENOENT''"
    "code enoent_error = Some ''ENOENT''" "\<not> node_missing (File (Inr ''{}''))"
    by (simp_all add: node_missing_def enoent_error_def eacces_error_def)
  have t: "trim ''  '' = []" "trim ''{'' \<noteq> []" "trim ''[]'' \<noteq> []" "trim ''{}'' \<noteq> []"
    by code_simp+
  have j: "JSON_parse sample_runtime ''{'' = Inl ''Unexpected token''"
    "JSON_parse sample_runtime ''[]'' = Inr (JArray [])"
    "JSON_parse sample_runtime ''{}'' = Inr (JObject [])"
    "not_json_object (JArray [])"
    by (simp_all add: sample_runtime_def not_json_object_def)
  have 1: "readDefaultTags sample_runtime (\<lambda>path. StatFails enoent_error) (JStr ''cfn'') = Inr (JObject []) \<and>
      isl (readDefaultParameters sample_runtime (\<lambda>path. StatFails enoent_error) (JStr ''cfn''))"
    using inst [of "\<lambda>path. StatFails enoent_error" enoent_error "[]" "[]" JNull "[]"] h by simp
  have 2: "isl (readDefaultTags sample_runtime (\<lambda>path. StatFails eacces_error) (JStr ''cfn''))"
    using inst [of "\<lambda>path. StatFails eacces_error" eacces_error "[]" "[]" JNull "[]"] h by simp
  have 3: "isl (readDefaultTags sample_runtime (\<lambda>path. NotAFile) (JStr ''cfn''))"
    using inst [of "\<lambda>path. NotAFile" eacces_error "[]" "[]" JNull "[]"] by simp
  have 4: "readDefaultTags sample_runtime (\<lambda>path. File (Inr ''  '')) (JStr ''cfn'') =
     Inl (Error ''Default tags file is empty: cfn/tags/default.json. Expected at least an empty JSON object {}.'')"
    using inst [of "\<lambda>path. File (Inr ''  '')" eacces_error "''  ''" "[]" JNull "[]"] t by simp
  have 5: "readDefaultTags sample_runtime (\<lambda>path. File (Inr ''{'')) (JStr ''cfn'') =
     Inl (Error ''Invalid JSON format in default.json at cfn/tags/default.json: Unexpected token. Please check the JSON syntax.'')"
    using inst [of "\<lambda>path. File (Inr ''{'')" eacces_error "''{''" "''Unexpected token''" JNull "[]"] t j
    by simp
  have 6: "readDefaultTags sample_runtime (\<lambda>path. File (Inr ''[]'')) (JStr ''cfn'') =
     Inl (Error ''Default tags must be a JSON object, got object'')"
    using inst [of "\<lambda>path. File (Inr ''[]'')" eacces_error "''[]''" "[]" "JArray []" "[]"] t j
    by simp
  have 7: "readDefaultTags sample_runtime (\<lambda>path. File (Inr ''{}'')) (JStr ''cfn'') = Inr (JObject [])"
    using inst [of "\<lambda>path. File (Inr ''{}'')" eacces_error "''{}''" "[]" JNull "[]"] t j by simp
  have 8: "readDefaultParameters sample_runtime (\<lambda>path. File (Inr ''{}'')) (JStr ''cfn'') = Inr (JObject [])"
    using inst [of "\<lambda>path. File (Inr ''{}'')" eacces_error "''{}''" "[]" JNull "[]"] h 7 by auto
  show ?thesis
    using f tp pp h t j 1 2 3 4 5 6 7 8 by simp
qed

section \<open>Properties of the CI build id generator\<close>

lemma alphabet_lower: "n < 26 \<Longrightarrow> is_lower (alphabet ! n)"
proof -
  have "list_all is_lower alphabet" by code_simp
  moreover have "length alphabet = 26" by (simp add: alphabet_def)
  ultimately show "n < 26 \<Longrightarrow> is_lower (alphabet ! n)"
    by (simp add: list_all_length)
qed

lemma append_letter_contract:
  assumes "0 \<le> r" "r < 1"
  shows "\<exists>c. is_lower c \<and> append_letter result \<lfloor>r * real (length alphabet)\<rfloor> = result @ [c]"
proof -
  have len: "length alphabet = 26" by (simp add: alphabet_def)
  have "0 \<le> r * 26" "r * 26 < 26" using assms by simp_all
  then have a: "0 \<le> \<lfloor>r * 26\<rfloor>" and b: "\<lfloor>r * 26\<rfloor> < 26"
    by (simp_all add: floor_less_iff)
  from a b have n: "nat \<lfloor>r * 26\<rfloor> < 26" by linarith
  from a b n show ?thesis
    using alphabet_lower [of "nat \<lfloor>r * 26\<rfloor>"] by (simp add: append_letter_def len)
qed

lemma random_loop_contract:
  assumes "\<forall>j<n. \<exists>r. random j = Inr r \<and> 0 \<le> r \<and> r < 1"
  shows "list_all is_lower result \<Longrightarrow> length result = i \<Longrightarrow> i \<le> n \<Longrightarrow>
     \<exists>s. random_loop random i n result = Inr s \<and> length s = n \<and> list_all is_lower s"
  using assms
proof (induction random i n result rule: random_loop.induct)
  case (1 random i n result)
  show ?case
  proof (cases "i < n")
    case False
    with 1 show ?thesis by simp
  next
    case True
    with "1.prems" obtain r where r: "random i = Inr r" "0 \<le> r" "r < 1" by blast
    obtain c where c: "is_lower c"
      "append_letter result \<lfloor>r * real (length alphabet)\<rfloor> = result @ [c]"
      using append_letter_contract [OF r(2,3)] by blast
    have "\<exists>s. random_loop random (Suc i) n (append_letter result \<lfloor>r * real (length alphabet)\<rfloor>) = Inr s \<and>
        length s = n \<and> list_all is_lower s"
      using "1.IH" [OF True r(1)] "1.prems" True c by simp
    with True r show ?thesis by simp
  qed
qed

text \<open>
  What holds of claim C7. When every call of \<^verbatim>\<open>Math.random()\<close> returns a number in
  \<open>[0, 1)\<close>, a length of 6 to 10 gives a string of exactly that many lowercase letters.
\<close>

lemma generateRandomId_valid:
  assumes "k \<in> {6, 7, 8, 9, 10}"
    and "\<forall>j<k. \<exists>r. random j = Inr r \<and> 0 \<le> r \<and> r < 1"
  shows "\<exists>s. generateRandomId rt random (JNum (Finite (real k))) = Inr s \<and> length s = k \<and>
     list_all is_lower s"
proof -
  obtain s where s: "random_loop random 0 k [] = Inr s" "length s = k" "list_all is_lower s"
    using random_loop_contract [OF assms(2), of "[]" 0] by auto
  from assms(1) s have "validateIdFormat (JStr s)"
    by (auto simp: validateIdFormat_def)
  with assms(1) s show ?thesis
    by (auto simp: generateRandomId_def Let_def)
qed

text \<open>
  An argument other than \<^verbatim>\<open>undefined\<close> that is not a number, not an integer or
  outside 6 to 10 makes the function throw; nothing is clamped.
\<close>

lemma generateRandomId_invalid:
  "(arg \<noteq> JUndefined \<and> typeof arg \<noteq> ''number'' \<longrightarrow>
      generateRandomId rt random arg = Inl (Error (''Random ID length must be a number, got '' @ typeof arg))) \<and>
   (typeof arg = ''number'' \<and> \<not> isInteger arg \<longrightarrow>
      generateRandomId rt random arg = Inl (Error ''Random ID length must be an integer'')) \<and>
   (isInteger arg \<and> (number_of arg < 6 \<or> number_of arg > 10) \<longrightarrow>
      generateRandomId rt random arg =
        Inl (Error (''Random ID length must be between 6 and 10 characters, got '' @ String rt arg)))"
  by (cases arg rule: isInteger.cases) (auto simp: generateRandomId_def Let_def)

text \<open>
  Claim C7 at a failing input. The argument \<^verbatim>\<open>undefined\<close> is not a number, and the
  repository's test expects \<^verbatim>\<open>Random ID length must be a number, got undefined\<close>; but
  the default initialiser \<^verbatim>\<open>length = 8\<close> replaces \<^verbatim>\<open>undefined\<close> before the type
  check, so the call behaves as \<^verbatim>\<open>generateRandomId(8)\<close> and returns eight letters
  (\<^verbatim>\<open>null\<close>, by contrast, is rejected).
\<close>

theorem generateRandomId_undefined_takes_default:
  "generateRandomId rt random JUndefined = generateRandomId rt random (JNum (Finite 8)) \<and>
   generateRandomId rt (\<lambda>i. Inr (1 / 2)) JUndefined = Inr ''nnnnnnnn'' \<and>
   generateRandomId rt random JNull =
     Inl (Error ''Random ID length must be a number, got object'')"
proof -
  have "generateRandomId rt (\<lambda>i. Inr (1 / 2)) JUndefined = Inr ''nnnnnnnn''"
    by code_simp
  then show ?thesis by (simp add: generateRandomId_def)
qed

theorem generateRandomId_undefined_witness:
  "generateRandomId sample_runtime (\<lambda>i. Inr (1 / 2)) JUndefined = Inr ''nnnnnnnn'' \<and>
   isl (generateRandomId sample_runtime (\<lambda>i. Inr (1 / 2)) JNull)"
proof -
  note inst = generateRandomId_undefined_takes_default [of sample_runtime "\<lambda>i. Inr (1 / 2)"]
  from inst have "generateRandomId sample_runtime (\<lambda>i. Inr (1 / 2)) JUndefined = Inr ''nnnnnnnn''"
    by blast
  moreover from inst have "generateRandomId sample_runtime (\<lambda>i. Inr (1 / 2)) JNull =
     Inl (Error ''Random ID length must be a number, got object'')"
    by blast
  ultimately show ?thesis by simp
qed

end
